theory Spec2Isabelle
  imports Complex_Main "HOL-Library.Sublist" "HOL-Library.Log_Nat" "HOL-Library.Product_Lexorder"
begin

section \<open>JavaScript values, outcomes and plain objects\<close>

text \<open>
  The helper functions at the end of \<^verbatim>\<open>src/data-models/data-mappings.ts\<close> are embedded
  as HOL functions. A call either returns a value, or raises an exception, or leaves the
  fragment of JavaScript this development covers; the third outcome is \<open>Unmodelled\<close> and
  is produced in exactly these places:
  \<^item> a property read on a value that is neither \<open>undefined\<close>, \<open>null\<close> nor a plain
    object (the answer depends on the built-in prototypes of the host), and a read of
    a state code that is a member of \<^verbatim>\<open>Object.prototype\<close> (which no upper-cased
    string is);
  \<^item> a template key with a regular-expression syntax character other than \<open>.\<close>
    outside its bracketed segments (\<^verbatim>\<open>new RegExp\<close> then raises SyntaxError or builds
    a matcher outside the fragment below);
  \<^item> an array index above \<open>2^53 - 1\<close>, where \<^verbatim>\<open>parseInt\<close> is no longer exact;
  \<^item> a sort of groups whose comparator is not consistent, which happens only when an
    order is NaN (the arrangement is then left to the implementation);
  \<^item> a parent id that is no own property of the hierarchy object and no member of
    \<^verbatim>\<open>Object.prototype\<close>, read after an assignment to \<^verbatim>\<open>hierarchy['__proto__']\<close> has put
    an array in the place of the prototype (what the read finds depends on the members
    of \<^verbatim>\<open>Array.prototype\<close>, which differ between editions of the language).
  Strings are ASCII. The numbers of a JSON document are rationals; the order of a group
  is a double.
\<close>

datatype js_error = TypeError

datatype 'a outcome = Returns 'a | Throws js_error | Unmodelled

fun bind_outcome :: "'a outcome \<Rightarrow> ('a \<Rightarrow> 'b outcome) \<Rightarrow> 'b outcome" where
  "bind_outcome (Returns x) f = f x"
| "bind_outcome (Throws e) f = Throws e"
| "bind_outcome Unmodelled f = Unmodelled"

text \<open>
  The properties every plain object inherits from \<^verbatim>\<open>Object.prototype\<close>: the standard ones
  and the legacy accessors of Annex B. Each of them is a function, except \<^verbatim>\<open>__proto__\<close>,
  which reads as \<^verbatim>\<open>Object.prototype\<close> itself; all of them are truthy, and none has a
  property \<^verbatim>\<open>push\<close>, \<^verbatim>\<open>forEach\<close> or \<^verbatim>\<open>toUpperCase\<close>.
\<close>

definition Object_prototype_names :: "string list" where
  "Object_prototype_names =
     [''constructor'', ''hasOwnProperty'', ''isPrototypeOf'', ''propertyIsEnumerable'',
      ''toLocaleString'', ''toString'', ''valueOf'', ''__proto__'',
      ''__defineGetter__'', ''__defineSetter__'', ''__lookupGetter__'', ''__lookupSetter__'']"

text \<open>
  A plain object used as a dictionary is the list of its own properties, in the order
  \<^verbatim>\<open>Object.entries\<close> enumerates them. \<^verbatim>\<open>obj[k]\<close> finds an own property first and
  a member of \<^verbatim>\<open>Object.prototype\<close> otherwise.
\<close>

datatype 'v property = Own 'v | FromPrototype string | Missing

definition lookup_property :: "(string \<rightharpoonup> 'v) \<Rightarrow> string \<Rightarrow> 'v property" where
  "lookup_property own k =
     (case own k of
        Some v \<Rightarrow> Own v
      | None \<Rightarrow> if k \<in> set Object_prototype_names then FromPrototype k else Missing)"

definition read_property :: "(string \<times> 'v) list \<Rightarrow> string \<Rightarrow> 'v property" where
  "read_property obj k = lookup_property (map_of obj) k"

text \<open>
  The data context (\<^verbatim>\<open>auditData: any\<close>, \<^verbatim>\<open>data: any\<close>) is a JSON document or
  \<^verbatim>\<open>undefined\<close>. A value met while the code walks through it is \<^verbatim>\<open>undefined\<close>, a
  part of the document, or a member of \<^verbatim>\<open>Object.prototype\<close> reached by a property read.
\<close>

datatype json =
    JNull
  | JBool bool
  | JNum rat
  | JStr string
  | JArr "json list"
  | JObj "(string \<times> json) list"

datatype jsval = Undefined | Json json | Builtin string

fun truthy :: "jsval \<Rightarrow> bool" where
  "truthy Undefined = False"
| "truthy (Builtin n) = True"
| "truthy (Json JNull) = False"
| "truthy (Json (JBool b)) = b"
| "truthy (Json (JNum n)) = (n \<noteq> 0)"
| "truthy (Json (JStr s)) = (s \<noteq> [])"
| "truthy (Json (JArr xs)) = True"
| "truthy (Json (JObj ps)) = True"

text \<open>
  \<^verbatim>\<open>v[k]\<close> and \<^verbatim>\<open>v.k\<close>: a read on \<open>undefined\<close> or \<open>null\<close> raises TypeError, a read on
  a plain object finds an own property or a member of \<^verbatim>\<open>Object.prototype\<close>, and a read
  on anything else consults the built-in prototypes of the host.
\<close>

fun get_member :: "jsval \<Rightarrow> string \<Rightarrow> jsval outcome" where
  "get_member Undefined k = Throws TypeError"
| "get_member (Json JNull) k = Throws TypeError"
| "get_member (Json (JObj ps)) k =
     (case read_property ps k of
        Own v \<Rightarrow> Returns (Json v)
      | FromPrototype n \<Rightarrow> Returns (Builtin n)
      | Missing \<Rightarrow> Returns Undefined)"
| "get_member v k = Unmodelled"

text \<open>\<^verbatim>\<open>v?.k\<close>.\<close>

definition optional_member :: "jsval \<Rightarrow> string \<Rightarrow> jsval outcome" where
  "optional_member v k =
     (if v = Undefined \<or> v = Json JNull then Returns Undefined else get_member v k)"

section \<open>Strings\<close>

text \<open>\<^verbatim>\<open>s.includes(sub)\<close>.\<close>

fun includes_str :: "string \<Rightarrow> string \<Rightarrow> bool" where
  "includes_str [] sub = (sub = [])"
| "includes_str (c # cs) sub = (prefix sub (c # cs) \<or> includes_str cs sub)"

text \<open>
  \<^verbatim>\<open>s.replace(needle, rep)\<close> with a string needle: the first occurrence only. The
  replacement texts used here contain no \<^verbatim>\<open>$\<close>, so they are inserted as they are.
\<close>

fun replace_first :: "string \<Rightarrow> string \<Rightarrow> string \<Rightarrow> string" where
  "replace_first needle rep [] = (if needle = [] then rep else [])"
| "replace_first needle rep (c # cs) =
     (if prefix needle (c # cs) then rep @ drop (length needle) (c # cs)
      else c # replace_first needle rep cs)"

text \<open>\<^verbatim>\<open>path.split('.')\<close>.\<close>

fun split_dot :: "string \<Rightarrow> string list" where
  "split_dot [] = [[]]"
| "split_dot (c # cs) =
     (case split_dot cs of
        [] \<Rightarrow> [[]]
      | seg # segs \<Rightarrow> if c = CHR ''.'' then [] # seg # segs else (c # seg) # segs)"

text \<open>\<^verbatim>\<open>s.toUpperCase()\<close> on ASCII.\<close>

definition upper_char :: "char \<Rightarrow> char" where
  "upper_char c =
     (case map_of (zip ''abcdefghijklmnopqrstuvwxyz'' ''ABCDEFGHIJKLMNOPQRSTUVWXYZ'') c of
        Some u \<Rightarrow> u
      | None \<Rightarrow> c)"

definition toUpperCase :: "string \<Rightarrow> string" where
  "toUpperCase s = map upper_char s"

text \<open>
  \<^verbatim>\<open>v?.toUpperCase()\<close>: \<open>None\<close> stands for \<^verbatim>\<open>undefined\<close>. Only strings have the
  method; on every other value that is not \<^verbatim>\<open>undefined\<close> or \<^verbatim>\<open>null\<close>, the call of the
  missing method raises TypeError.
\<close>

fun optional_toUpperCase :: "jsval \<Rightarrow> string option outcome" where
  "optional_toUpperCase Undefined = Returns None"
| "optional_toUpperCase (Json JNull) = Returns None"
| "optional_toUpperCase (Json (JStr s)) = Returns (Some (toUpperCase s))"
| "optional_toUpperCase v = Throws TypeError"

text \<open>Decimal digits, \<^verbatim>\<open>parseInt\<close> on a run of digits, and the text of a natural number.\<close>

definition is_digit :: "char \<Rightarrow> bool" where
  "is_digit c = (c \<in> set ''0123456789'')"

definition digit_value :: "char \<Rightarrow> nat" where
  "digit_value c =
     (case map_of (zip ''0123456789'' [0, 1, 2, 3, 4, 5, 6, 7, 8, 9]) c of
        Some d \<Rightarrow> d
      | None \<Rightarrow> 0)"

definition parseInt :: "string \<Rightarrow> nat" where
  "parseInt ds = foldl (\<lambda>acc c. 10 * acc + digit_value c) 0 ds"

definition digit_char :: "nat \<Rightarrow> char" where
  "digit_char d = ''0123456789'' ! (d mod 10)"

function show_nat :: "nat \<Rightarrow> string" where
  "show_nat n = (if n < 10 then [digit_char n] else show_nat (n div 10) @ [digit_char n])"
  by pat_completeness auto
termination
  by (relation "measure (\<lambda>n. n)") auto

declare show_nat.simps [simp del]

definition max_safe_integer :: nat where
  "max_safe_integer = 9007199254740991"

text \<open>The template literal \<^verbatim>\<open>${index}\<close> for a number obtained from \<^verbatim>\<open>parseInt\<close>.\<close>

definition index_text :: "nat \<Rightarrow> string outcome" where
  "index_text n = (if n \<le> max_safe_integer then Returns (show_nat n) else Unmodelled)"

section \<open>The matcher built from a template key\<close>

text \<open>
  \<^verbatim>\<open>templateKey.replace(/\[(\*|\d+)\]/g, '\\[\\d+\\]')\<close> rewrites every bracketed
  placeholder or index into the pattern text \<^verbatim>\<open>\[\d+\]\<close>, and
  \<^verbatim>\<open>new RegExp(`^${pattern}$`)\<close> reads the rest of the key as pattern text: a dot
  matches any character that is not a line terminator, every other character that is no
  syntax character matches itself. Nothing is escaped.
\<close>

datatype atom = Lit char | AnyChar | Index

definition regex_syntax_chars :: "char list" where
  "regex_syntax_chars = CHR 0x5C # ''^$.*+?()[]{}|''"

definition is_line_terminator :: "char \<Rightarrow> bool" where
  "is_line_terminator c = (c = CHR 0x0A \<or> c = CHR 0x0D)"

text \<open>
  A string that starts with \<^verbatim>\<open>[\<close>, one or more digits and \<^verbatim>\<open>]\<close>: the digits and the
  text after the bracket (what \<^verbatim>\<open>\[(\d+)\]\<close> matches at the start of the string).
\<close>

definition bracketed :: "string \<Rightarrow> (string \<times> string) option" where
  "bracketed s =
     (case s of
        [] \<Rightarrow> None
      | c # cs \<Rightarrow>
          if c = CHR ''['' \<and> takeWhile is_digit cs \<noteq> [] then
            (case dropWhile is_digit cs of
               [] \<Rightarrow> None
             | d # rest \<Rightarrow> if d = CHR '']'' then Some (takeWhile is_digit cs, rest) else None)
          else None)"

text \<open>The text after a leading \<^verbatim>\<open>[*]\<close> or \<^verbatim>\<open>[digits]\<close>, what the \<^verbatim>\<open>replace\<close> rewrites.\<close>

definition placeholder_rest :: "string \<Rightarrow> string option" where
  "placeholder_rest s =
     (if prefix ''[*]'' s then Some (drop 3 s) else map_option snd (bracketed s))"

lemma bracketed_shorter: "bracketed s = Some (ds, rest) \<Longrightarrow> length rest < length s"
proof -
  assume a: "bracketed s = Some (ds, rest)"
  then obtain c cs where s: "s = c # cs"
    by (cases s) (auto simp: bracketed_def)
  from a s obtain d where "dropWhile is_digit cs = d # rest"
    by (auto simp: bracketed_def split: if_splits list.splits)
  then have "length rest < length (dropWhile is_digit cs)"
    by simp
  also have "\<dots> \<le> length cs"
    by (rule length_dropWhile_le)
  finally show ?thesis
    using s by simp
qed

lemma placeholder_rest_shorter: "placeholder_rest s = Some rest \<Longrightarrow> length rest < length s"
  by (auto simp: placeholder_rest_def prefix_def dest: bracketed_shorter split: if_splits)

function template_regex :: "string \<Rightarrow> atom list option" where
  "template_regex [] = Some []"
| "template_regex (c # cs) =
     (case placeholder_rest (c # cs) of
        Some rest \<Rightarrow> map_option (Cons Index) (template_regex rest)
      | None \<Rightarrow>
          if c = CHR ''.'' then map_option (Cons AnyChar) (template_regex cs)
          else if c \<in> set regex_syntax_chars then None
          else map_option (Cons (Lit c)) (template_regex cs))"
  by pat_completeness auto
termination
  by (relation "measure length") (auto dest: placeholder_rest_shorter)

text \<open>\<^verbatim>\<open>regex.test(dataFieldKey)\<close>, anchored at both ends.\<close>

fun regex_test :: "atom list \<Rightarrow> string \<Rightarrow> bool" where
  "regex_test [] s = (s = [])"
| "regex_test (Lit c # as) s =
     (case s of [] \<Rightarrow> False | x # xs \<Rightarrow> x = c \<and> regex_test as xs)"
| "regex_test (AnyChar # as) s =
     (case s of [] \<Rightarrow> False | x # xs \<Rightarrow> \<not> is_line_terminator x \<and> regex_test as xs)"
| "regex_test (Index # as) s =
     (case bracketed s of None \<Rightarrow> False | Some (ds, rest) \<Rightarrow> regex_test as rest)"

text \<open>\<^verbatim>\<open>dataFieldKey.match(/\[(\d+)\]/)\<close>: the digits of the leftmost bracketed integer.\<close>

fun first_bracketed :: "string \<Rightarrow> string option" where
  "first_bracketed [] = None"
| "first_bracketed (c # cs) =
     (case bracketed (c # cs) of
        Some (ds, rest) \<Rightarrow> Some ds
      | None \<Rightarrow> first_bracketed cs)"

text \<open>\<^verbatim>\<open>indexMatch ? parseInt(indexMatch[1]) : 0\<close>.\<close>

definition bracket_index :: "string \<Rightarrow> nat" where
  "bracket_index dataFieldKey =
     (case first_bracketed dataFieldKey of
        Some ds \<Rightarrow> parseInt ds
      | None \<Rightarrow> 0)"

text \<open>
  A registry key is matched by a data field key when it contains \<^verbatim>\<open>[*]\<close> and the
  matcher built from it accepts the data field key; the loop passes it over when it has
  no \<^verbatim>\<open>[*]\<close> or its matcher rejects the data field key.
\<close>

definition matched :: "string \<Rightarrow> string \<Rightarrow> bool" where
  "matched templateKey dataFieldKey =
     (includes_str templateKey ''[*]'' \<and>
      (case template_regex templateKey of
         Some regex \<Rightarrow> regex_test regex dataFieldKey
       | None \<Rightarrow> False))"

definition passed_over :: "string \<Rightarrow> string \<Rightarrow> bool" where
  "passed_over templateKey dataFieldKey =
     (\<not> includes_str templateKey ''[*]'' \<or>
      (case template_regex templateKey of
         Some regex \<Rightarrow> \<not> regex_test regex dataFieldKey
       | None \<Rightarrow> False))"

section \<open>Field definitions and the Template Resolver\<close>

record DropdownOption =
  opt_value :: string
  label :: string
  disabled :: "bool option"

text \<open>
  \<^verbatim>\<open>StateSpecificOptions\<close>: the lists by state code and the required \<^verbatim>\<open>default\<close> list.
  The code looked up is upper-cased, so it is never the key \<^verbatim>\<open>default\<close> nor a member of
  \<^verbatim>\<open>Object.prototype\<close> (lemma \<open>toUpperCase_no_lower\<close> below).
\<close>

record StateSpecificOptions =
  by_state :: "(string \<times> DropdownOption list) list"
  default_options :: "DropdownOption list"

text \<open>
  Of \<^verbatim>\<open>FieldConfiguration\<close> the fields the helpers read; the other fields of a definition
  travel in the extension slot of the record, which a record update leaves as it is.
\<close>

record FieldConfiguration =
  key :: string
  options :: "DropdownOption list option"
  stateSpecificOptions :: "StateSpecificOptions option"
  dependsOnStateFrom :: "string option"
  group_fc :: "string option"

text \<open>What \<^verbatim>\<open>getFieldConfigForDataField\<close> hands back.\<close>

datatype 'c resolved = Definition 'c | PrototypeMember string | NotFound

text \<open>
  \<^verbatim>\<open>config.group?.replace('_template', `_${index}`) || config.group\<close>.
\<close>

definition dynamic_group :: "string option \<Rightarrow> string \<Rightarrow> string option" where
  "dynamic_group g idx =
     (case g of
        None \<Rightarrow> None
      | Some gid \<Rightarrow>
          (let r = replace_first ''_template'' (CHR ''_'' # idx) gid
           in if r \<noteq> [] then Some r else Some gid))"

text \<open>The loop over \<^verbatim>\<open>Object.entries(FIELD_CONFIGURATIONS)\<close>.\<close>

fun template_matching ::
  "(string \<times> 'a FieldConfiguration_scheme) list \<Rightarrow> string \<Rightarrow>
     'a FieldConfiguration_scheme resolved outcome" where
  "template_matching [] dataFieldKey = Returns NotFound"
| "template_matching ((templateKey, config) # entries) dataFieldKey =
     (if includes_str templateKey ''[*]'' then
        (case template_regex templateKey of
           None \<Rightarrow> Unmodelled
         | Some regex \<Rightarrow>
             if regex_test regex dataFieldKey then
               bind_outcome (index_text (bracket_index dataFieldKey))
                 (\<lambda>idx. Returns (Definition
                    (config\<lparr>key := dataFieldKey, group_fc := dynamic_group (group_fc config) idx\<rparr>)))
             else template_matching entries dataFieldKey)
      else template_matching entries dataFieldKey)"

text \<open>
  \<^verbatim>\<open>getFieldConfigForDataField\<close>, with the registry \<^verbatim>\<open>FIELD_CONFIGURATIONS\<close> as its
  first argument. The exact match is the read \<^verbatim>\<open>FIELD_CONFIGURATIONS[dataFieldKey]\<close>,
  which also finds the members of \<^verbatim>\<open>Object.prototype\<close>.
\<close>

definition getFieldConfigForDataField ::
  "(string \<times> 'a FieldConfiguration_scheme) list \<Rightarrow> string \<Rightarrow>
     'a FieldConfiguration_scheme resolved outcome" where
  "getFieldConfigForDataField FIELD_CONFIGURATIONS dataFieldKey =
     (case read_property FIELD_CONFIGURATIONS dataFieldKey of
        Own config \<Rightarrow> Returns (Definition config)
      | FromPrototype n \<Rightarrow> Returns (PrototypeMember n)
      | Missing \<Rightarrow> template_matching FIELD_CONFIGURATIONS dataFieldKey)"

section \<open>The State Option Resolver\<close>

text \<open>
  \<^verbatim>\<open>getNestedValue\<close>: \<^verbatim>\<open>path.split('.').reduce(callback, obj)\<close> with the callback
  \<^verbatim>\<open>current && current[key] !== undefined ? current[key] : undefined\<close>.
\<close>

definition nested_step :: "jsval outcome \<Rightarrow> string \<Rightarrow> jsval outcome" where
  "nested_step acc k =
     bind_outcome acc (\<lambda>current.
       if truthy current then
         bind_outcome (get_member current k)
           (\<lambda>v. Returns (if v \<noteq> Undefined then v else Undefined))
       else Returns Undefined)"

definition getNestedValue :: "jsval \<Rightarrow> string \<Rightarrow> jsval outcome" where
  "getNestedValue obj path = foldl nested_step (Returns obj) (split_dot path)"

text \<open>
  \<^verbatim>\<open>getFieldOptions\<close>. An array and an object are truthy, so the tests of
  \<^verbatim>\<open>fieldConfig.options\<close>, \<^verbatim>\<open>fieldConfig.stateSpecificOptions\<close> and of the list found
  for the state code ask whether the value is there; \<^verbatim>\<open>fieldConfig.dependsOnStateFrom\<close>
  and \<^verbatim>\<open>stateCode\<close> are strings, truthy when they are not empty.
\<close>

definition getFieldOptions ::
  "'a FieldConfiguration_scheme \<Rightarrow> jsval \<Rightarrow> DropdownOption list outcome" where
  "getFieldOptions fieldConfig auditData =
     (case options fieldConfig of
        Some opts \<Rightarrow> Returns opts
      | None \<Rightarrow>
          (case (stateSpecificOptions fieldConfig, dependsOnStateFrom fieldConfig) of
             (Some sso, Some path) \<Rightarrow>
               if path = [] then Returns []
               else
                 bind_outcome (getNestedValue auditData path) (\<lambda>stateFieldValue.
                 bind_outcome (optional_toUpperCase stateFieldValue) (\<lambda>stateCode.
                   (case stateCode of
                      None \<Rightarrow> Returns (default_options sso)
                    | Some code \<Rightarrow>
                        if code = [] then Returns (default_options sso)
                        else
                          (case read_property (by_state sso) code of
                             Own opts \<Rightarrow> Returns opts
                           | FromPrototype n \<Rightarrow> Unmodelled
                           | Missing \<Rightarrow> Returns (default_options sso)))))
           | _ \<Rightarrow> Returns []))"

text \<open>The lower-case letters, which no upper-cased string contains.\<close>

definition lower_letters :: "char list" where
  "lower_letters = ''abcdefghijklmnopqrstuvwxyz''"

section \<open>Numbers\<close>

text \<open>
  A JavaScript number is a double: \<open>Num q\<close> is the finite double of value \<open>q\<close> other
  than \<open>-0\<close>, \<open>NegZero\<close> is \<open>-0\<close>, and there are the two infinities and NaN. A literal
  of the source such as \<^verbatim>\<open>9.5\<close> and an array index are doubles; an arithmetic
  operation yields the double nearest to its exact result.
\<close>

datatype number = Num rat | NegZero | PosInf | NegInf | NaN

definition two_to :: "int \<Rightarrow> rat" where
  "two_to e = (if 0 \<le> e then 2 ^ nat e else 1 / 2 ^ nat (- e))"

text \<open>For \<open>x > 0\<close>, the exponent \<open>e\<close> with \<open>2^e \<le> x < 2^(e+1)\<close>.\<close>

definition exponent_of :: "rat \<Rightarrow> int" where
  "exponent_of x =
     (case quotient_of x of (n, d) \<Rightarrow>
        let e = bitlen n - bitlen d in if two_to e \<le> x then e else e - 1)"

definition round_half_even :: "rat \<Rightarrow> int" where
  "round_half_even x =
     (let f = \<lfloor>x\<rfloor>; r = x - of_int f in
      if r < 1 / 2 then f else if 1 / 2 < r then f + 1 else if even f then f else f + 1)"

text \<open>
  The double nearest to a rational, ties to the even significand (the rounding of
  IEEE 754 binary64: 53 bits of significand, least exponent \<open>-1074\<close>, overflow to an
  infinity from \<open>2^1024\<close> on).
\<close>

definition round_double :: "rat \<Rightarrow> number" where
  "round_double x =
     (if x = 0 then Num 0
      else
        let q = max (exponent_of \<bar>x\<bar> - 52) (- 1074);
            m = round_half_even (\<bar>x\<bar> / two_to q);
            y = of_int m * two_to q
        in if two_to 1024 \<le> y then (if 0 < x then PosInf else NegInf)
           else if m = 0 then (if 0 < x then Num 0 else NegZero)
           else Num (if 0 < x then y else - y))"

text \<open>\<^verbatim>\<open>a + b\<close> on two numbers.\<close>

fun number_plus :: "number \<Rightarrow> number \<Rightarrow> number" where
  "number_plus NaN b = NaN"
| "number_plus a NaN = NaN"
| "number_plus PosInf NegInf = NaN"
| "number_plus NegInf PosInf = NaN"
| "number_plus PosInf b = PosInf"
| "number_plus a PosInf = PosInf"
| "number_plus NegInf b = NegInf"
| "number_plus a NegInf = NegInf"
| "number_plus NegZero b = b"
| "number_plus a NegZero = a"
| "number_plus (Num x) (Num y) = round_double (x + y)"

text \<open>
  The comparator \<^verbatim>\<open>(a, b) => a.order - b.order\<close>. The difference of two doubles has
  the sign of their exact difference (it is zero only when they are equal, since
  small differences are subnormal and not rounded to zero; it overflows to an infinity
  of the same sign), the difference of an infinity and itself is NaN, and so is every
  difference with a NaN; \<^verbatim>\<open>sort\<close> takes a NaN for zero. So without NaN the comparator
  orders numbers by \<open>rank\<close>, and two numbers compare as equal when one of them is NaN
  or both have the same rank.
\<close>

fun rank :: "number \<Rightarrow> int \<times> rat" where
  "rank NegInf = (- 1, 0)"
| "rank (Num q) = (0, q)"
| "rank NegZero = (0, 0)"
| "rank PosInf = (1, 0)"
| "rank NaN = (0, 0)"

definition compares_equal :: "number \<Rightarrow> number \<Rightarrow> bool" where
  "compares_equal a b = (a = NaN \<or> b = NaN \<or> rank a = rank b)"

section \<open>Group definitions, the Dynamic Group Materializer and the Hierarchy Builder\<close>

record FieldGroup =
  id_fg :: string
  name :: string
  order :: number
  description :: "string option"
  defaultOpen :: "bool option"
  parentGroup :: "string option"
  isTemplate :: "bool option"
  templatePattern :: "string option"
  dynamicNamePattern :: "string option"

text \<open>\<^verbatim>\<open>data.section?.name || []\<close>.\<close>

definition collection :: "jsval \<Rightarrow> string \<Rightarrow> string \<Rightarrow> jsval outcome" where
  "collection data section_name collection_name =
     bind_outcome (get_member data section_name) (\<lambda>s.
     bind_outcome (optional_member s collection_name) (\<lambda>v.
       Returns (if truthy v then v else Json (JArr []))))"

text \<open>
  \<^verbatim>\<open>v.forEach((element, index) => dynamicGroups.push(mk(index)))\<close>: only an array has
  the method, so the call raises TypeError on every other value.
\<close>

definition forEach_push :: "jsval \<Rightarrow> (nat \<Rightarrow> 'a) \<Rightarrow> 'a list outcome" where
  "forEach_push v mk =
     (case v of
        Json (JArr xs) \<Rightarrow> Returns (map mk [0..<length xs])
      | _ \<Rightarrow> Throws TypeError)"

definition household_member_group :: "FieldGroup \<Rightarrow> nat \<Rightarrow> FieldGroup" where
  "household_member_group template index =
     \<lparr>id_fg = ''household_member_'' @ show_nat index,
      name = ''Household Member '' @ show_nat (index + 1),
      order = number_plus (order template) (Num (of_nat index)),
      description = Some (''Information for household member '' @ show_nat (index + 1)),
      defaultOpen = None,
      parentGroup = parentGroup template,
      isTemplate = None,
      templatePattern = None,
      dynamicNamePattern = None\<rparr>"

definition vehicle_group :: "FieldGroup \<Rightarrow> nat \<Rightarrow> FieldGroup" where
  "vehicle_group template index =
     \<lparr>id_fg = ''vehicle_'' @ show_nat index,
      name = ''Vehicle '' @ show_nat (index + 1),
      order = number_plus (order template) (Num (of_nat index)),
      description = Some (''Information for vehicle '' @ show_nat (index + 1)),
      defaultOpen = None,
      parentGroup = parentGroup template,
      isTemplate = None,
      templatePattern = None,
      dynamicNamePattern = None\<rparr>"

text \<open>The body of \<^verbatim>\<open>templateGroups.forEach\<close>: the groups one template adds.\<close>

definition template_groups :: "jsval \<Rightarrow> FieldGroup \<Rightarrow> FieldGroup list outcome" where
  "template_groups data template =
     (if isTemplate template \<noteq> Some True
         \<or> templatePattern template = None \<or> templatePattern template = Some []
      then Returns []
      else
        bind_outcome
          (if templatePattern template = Some ''client.household_members[*]'' then
             bind_outcome (collection data ''client'' ''household_members'')
               (\<lambda>householdMembers. forEach_push householdMembers (household_member_group template))
           else Returns [])
          (\<lambda>members.
        bind_outcome
          (if templatePattern template = Some ''auto.vehicles[*]'' then
             bind_outcome (collection data ''auto'' ''vehicles'')
               (\<lambda>vehicles. forEach_push vehicles (vehicle_group template))
           else Returns [])
          (\<lambda>vehicles. Returns (members @ vehicles))))"

fun createDynamicGroups :: "jsval \<Rightarrow> FieldGroup list \<Rightarrow> FieldGroup list outcome" where
  "createDynamicGroups data [] = Returns []"
| "createDynamicGroups data (template # templateGroups) =
     bind_outcome (template_groups data template) (\<lambda>added.
     bind_outcome (createDynamicGroups data templateGroups) (\<lambda>rest.
       Returns (added @ rest)))"

text \<open>
  \<^verbatim>\<open>buildGroupHierarchy\<close>. \<^verbatim>\<open>flatGroups\<close> is the list of its own properties, in the
  order \<^verbatim>\<open>Object.values\<close> enumerates them. \<^verbatim>\<open>!group.parentGroup\<close> holds for an absent
  and for an empty parent id.
\<close>

definition allGroups :: "(string \<times> FieldGroup) list \<Rightarrow> FieldGroup list \<Rightarrow> FieldGroup list" where
  "allGroups flatGroups dynamicGroups = map snd flatGroups @ dynamicGroups"

definition has_parent :: "FieldGroup \<Rightarrow> bool" where
  "has_parent g = (case parentGroup g of None \<Rightarrow> False | Some p \<Rightarrow> p \<noteq> [])"

text \<open>
  The local object \<^verbatim>\<open>hierarchy\<close> while the loops run: its own properties, the children
  buckets, in the order of their creation, and its prototype, which is
  \<^verbatim>\<open>Object.prototype\<close> (\<open>None\<close>) until an assignment to \<^verbatim>\<open>hierarchy['__proto__']\<close> puts
  an array in its place (\<open>Some\<close> of the elements of that array).
\<close>

type_synonym hierarchy_object = "(string \<times> FieldGroup list) list \<times> FieldGroup list option"

text \<open>\<^verbatim>\<open>obj[k] = v\<close> for a key that is stored as an own property.\<close>

fun set_own :: "string \<Rightarrow> 'v \<Rightarrow> (string \<times> 'v) list \<Rightarrow> (string \<times> 'v) list" where
  "set_own k v [] = [(k, v)]"
| "set_own k v (p # ps) = (if fst p = k then (k, v) # ps else p # set_own k v ps)"

text \<open>A \<^verbatim>\<open>forEach\<close> whose callback updates local state and may raise.\<close>

fun forEach_state :: "('s \<Rightarrow> 'a \<Rightarrow> 's outcome) \<Rightarrow> 'a list \<Rightarrow> 's \<Rightarrow> 's outcome" where
  "forEach_state f [] s = Returns s"
| "forEach_state f (x # xs) s = bind_outcome (f s x) (forEach_state f xs)"

text \<open>
  First loop: \<^verbatim>\<open>topLevel.push(group); hierarchy[group.id] = []\<close>. The assignment creates
  or overwrites an own property, except for the id \<^verbatim>\<open>__proto__\<close>: that name is an
  accessor of \<^verbatim>\<open>Object.prototype\<close>, whose setter makes the new empty array the prototype
  of \<^verbatim>\<open>hierarchy\<close> and creates no own property. Every other property that
  \<^verbatim>\<open>hierarchy\<close> inherits is a writable data property, which an assignment shadows.
\<close>

definition init_step ::
  "FieldGroup list \<times> hierarchy_object \<Rightarrow> FieldGroup \<Rightarrow> FieldGroup list \<times> hierarchy_object" where
  "init_step st g =
     (case st of (tops, own, proto) \<Rightarrow>
        if has_parent g then st
        else if id_fg g = ''__proto__'' then (tops @ [g], own, Some [])
        else (tops @ [g], set_own (id_fg g) [] own, proto))"

text \<open>
  Second loop: \<^verbatim>\<open>hierarchy[group.parentGroup].push(group)\<close> when the parent id and the
  value read are truthy. The read finds an own bucket first, an array, which is truthy.
  Otherwise \<^verbatim>\<open>__proto__\<close> reads as the prototype: the array put there by the first
  loop, onto which the group is pushed, or else \<^verbatim>\<open>Object.prototype\<close>, which is truthy
  and has no \<^verbatim>\<open>push\<close>. Every other member of \<^verbatim>\<open>Object.prototype\<close> is inherited through
  either prototype as a function, truthy and without \<^verbatim>\<open>push\<close>. Any other name is
  absent while the prototype is \<^verbatim>\<open>Object.prototype\<close>; under an array as prototype it
  may name an element, the length or a method of that array.
\<close>

definition attach_step :: "hierarchy_object \<Rightarrow> FieldGroup \<Rightarrow> hierarchy_object outcome" where
  "attach_step h g =
     (case h of (own, proto) \<Rightarrow>
        (case parentGroup g of
           None \<Rightarrow> Returns h
         | Some p \<Rightarrow>
             if p = [] then Returns h
             else
               (case map_of own p of
                  Some bucket \<Rightarrow> Returns (set_own p (bucket @ [g]) own, proto)
                | None \<Rightarrow>
                    if p = ''__proto__'' then
                      (case proto of
                         Some elements \<Rightarrow> Returns (own, Some (elements @ [g]))
                       | None \<Rightarrow> Throws TypeError)
                    else if p \<in> set Object_prototype_names then Throws TypeError
                    else
                      (case proto of
                         None \<Rightarrow> Returns h
                       | Some elements \<Rightarrow> Unmodelled))))"

text \<open>
  \<^verbatim>\<open>xs.sort((a, b) => a.order - b.order)\<close>. The sort of an array is stable
  (ECMAScript 2019): with a consistent comparator it yields the one ascending
  arrangement that keeps elements that compare as equal in their former sequence.
  Without NaN that is what \<open>sort_key\<close> computes on the ranks; with a NaN the comparator
  is consistent only when every two elements compare as equal, and the array is then
  left as it is.
\<close>

definition sort_by_order :: "FieldGroup list \<Rightarrow> FieldGroup list outcome" where
  "sort_by_order gs =
     (if list_all (\<lambda>g. order g \<noteq> NaN) gs then Returns (sort_key (\<lambda>g. rank (order g)) gs)
      else if list_all (\<lambda>a. list_all (\<lambda>b. compares_equal (order a) (order b)) gs) gs
      then Returns gs
      else Unmodelled)"

text \<open>
  \<^verbatim>\<open>Object.keys(hierarchy).forEach(parentId => hierarchy[parentId].sort(...))\<close>: every own
  bucket is sorted, and nothing else is. (The buckets are sorted one by one,
  independently, so the order in which \<^verbatim>\<open>Object.keys\<close> lists them does not show.)
\<close>

fun sort_buckets ::
  "(string \<times> FieldGroup list) list \<Rightarrow> (string \<times> FieldGroup list) list outcome" where
  "sort_buckets [] = Returns []"
| "sort_buckets ((parentId, bucket) # rest) =
     bind_outcome (sort_by_order bucket) (\<lambda>sorted_bucket.
     bind_outcome (sort_buckets rest) (\<lambda>sorted_rest.
       Returns ((parentId, sorted_bucket) # sorted_rest)))"

text \<open>
  The result \<^verbatim>\<open>{ topLevel, hierarchy }\<close>: \<open>hierarchy\<close> maps the own keys of the object to
  their buckets, and \<open>hierarchy_prototype\<close> is the array that has replaced its prototype,
  if any, which a caller reads as \<^verbatim>\<open>hierarchy['__proto__']\<close>.
\<close>

record GroupHierarchy =
  topLevel :: "FieldGroup list"
  hierarchy :: "string \<rightharpoonup> FieldGroup list"
  hierarchy_prototype :: "FieldGroup list option"

definition buildGroupHierarchy ::
  "(string \<times> FieldGroup) list \<Rightarrow> FieldGroup list \<Rightarrow> GroupHierarchy outcome" where
  "buildGroupHierarchy flatGroups dynamicGroups =
     (case foldl init_step ([], [], None) (allGroups flatGroups dynamicGroups) of
        (tops, h) \<Rightarrow>
          bind_outcome (forEach_state attach_step (allGroups flatGroups dynamicGroups) h)
            (\<lambda>(own, proto).
          bind_outcome (sort_by_order tops) (\<lambda>sorted_tops.
          bind_outcome (sort_buckets own) (\<lambda>sorted_own.
            Returns \<lparr>topLevel = sorted_tops, hierarchy = map_of sorted_own,
                     hierarchy_prototype = proto\<rparr>))))"

text \<open>
  The groups of a working set that name \<open>p\<close> as their parent, in the order of the set:
  what the second loop pushes into the bucket of \<open>p\<close>.
\<close>

definition children_of :: "string \<Rightarrow> FieldGroup list \<Rightarrow> FieldGroup list" where
  "children_of p gs = filter (\<lambda>g. has_parent g \<and> parentGroup g = Some p) gs"

text \<open>
  A group whose parent id is the name of a member of \<^verbatim>\<open>Object.prototype\<close> and not the
  id of a group without parent of the working set.
\<close>

definition names_inherited_member :: "FieldGroup list \<Rightarrow> FieldGroup \<Rightarrow> bool" where
  "names_inherited_member gs g =
     (case parentGroup g of
        None \<Rightarrow> False
      | Some p \<Rightarrow> p \<in> set Object_prototype_names
                   \<and> p \<notin> set (map id_fg (filter (\<lambda>t. \<not> has_parent t) gs)))"

section \<open>Entries of the registries used as examples\<close>

text \<open>Three entries of \<^verbatim>\<open>FIELD_CONFIGURATIONS\<close>, in the order of the source.\<close>

definition client_first_name :: FieldConfiguration where
  "client_first_name =
     \<lparr>key = ''client.first_name'', options = None, stateSpecificOptions = None,
      dependsOnStateFrom = None, group_fc = Some ''personal_information''\<rparr>"

definition household_member_first_name :: FieldConfiguration where
  "household_member_first_name =
     \<lparr>key = ''client.household_members[*].first_name'', options = None,
      stateSpecificOptions = None, dependsOnStateFrom = None,
      group_fc = Some ''household_member_template''\<rparr>"

definition vehicle_vin :: FieldConfiguration where
  "vehicle_vin =
     \<lparr>key = ''auto.vehicles[*].vin'', options = None, stateSpecificOptions = None,
      dependsOnStateFrom = None, group_fc = Some ''vehicle_details''\<rparr>"

definition example_registry :: "(string \<times> FieldConfiguration) list" where
  "example_registry =
     [(''client.first_name'', client_first_name),
      (''client.household_members[*].first_name'', household_member_first_name),
      (''auto.vehicles[*].vin'', vehicle_vin)]"

text \<open>
  A registry after the template round-trip example of the specification, with a group id
  that has \<^verbatim>\<open>_template\<close> in the middle.
\<close>

definition inner_template_config :: FieldConfiguration where
  "inner_template_config =
     \<lparr>key = ''a.b[*].c'', options = None, stateSpecificOptions = None,
      dependsOnStateFrom = None, group_fc = Some ''g_template_details''\<rparr>"

text \<open>The three template groups of \<^verbatim>\<open>FIELD_GROUPS\<close>.\<close>

definition household_member_template :: FieldGroup where
  "household_member_template =
     \<lparr>id_fg = ''household_member_template'', name = ''Household Members'', order = Num 7,
      description = None, defaultOpen = Some False, parentGroup = None,
      isTemplate = Some True, templatePattern = Some ''client.household_members[*]'',
      dynamicNamePattern = Some ''Household Member {index + 1}''\<rparr>"

definition additional_interests_template :: FieldGroup where
  "additional_interests_template =
     \<lparr>id_fg = ''additional_interests_template'', name = ''Additional Interest'',
      order = Num (19 / 2),
      description = None, defaultOpen = Some False, parentGroup = None,
      isTemplate = Some True, templatePattern = Some ''home.additional_interests[*]'',
      dynamicNamePattern = Some ''Additional Interest {index + 1}''\<rparr>"

definition vehicle_template :: FieldGroup where
  "vehicle_template =
     \<lparr>id_fg = ''vehicle_template'', name = ''Vehicle'', order = Num 3,
      description = None, defaultOpen = Some True, parentGroup = None,
      isTemplate = Some True, templatePattern = Some ''auto.vehicles[*]'',
      dynamicNamePattern = Some ''Vehicle {index + 1}''\<rparr>"

text \<open>A data context with three vehicles and one additional interest.\<close>

definition example_data :: jsval where
  "example_data = Json (JObj
     [(''auto'', JObj [(''vehicles'',
         JArr [JObj [(''vin'', JStr ''1HGCM82633A004352'')],
               JObj [(''vin'', JStr ''2T1BURHE5JC123456'')],
               JObj [(''vin'', JStr ''3FA6P0H72HR123456'')]])]),
      (''home'', JObj [(''additional_interests'',
         JArr [JObj [(''type'', JStr ''Mortgagee'')]])])])"

text \<open>A data context with two household members and two vehicles.\<close>

definition household_data :: jsval where
  "household_data = Json (JObj
     [(''client'', JObj [(''household_members'',
         JArr [JObj [(''first_name'', JStr ''Ann'')],
               JObj [(''first_name'', JStr ''Ben'')]])]),
      (''auto'', JObj [(''vehicles'',
         JArr [JObj [(''vin'', JStr ''1HGCM82633A004352'')],
               JObj [(''vin'', JStr ''2T1BURHE5JC123456'')]])])])"

text \<open>
  Groups after the hierarchy ordering example of the specification: top-level orders
  3, 1, 2 and, under the group of order 1, children of orders 20 and 10; a dynamic
  top-level group repeats the order 1.
\<close>

definition plain_group :: "string \<Rightarrow> rat \<Rightarrow> string option \<Rightarrow> FieldGroup" where
  "plain_group i ord parent =
     \<lparr>id_fg = i, name = i, order = Num ord, description = None, defaultOpen = None,
      parentGroup = parent, isTemplate = None, templatePattern = None,
      dynamicNamePattern = None\<rparr>"

definition example_flat_groups :: "(string \<times> FieldGroup) list" where
  "example_flat_groups =
     [(''three'', plain_group ''three'' 3 None),
      (''one'', plain_group ''one'' 1 None),
      (''two'', plain_group ''two'' 2 None),
      (''late'', plain_group ''late'' 20 (Some ''one'')),
      (''early'', plain_group ''early'' 10 (Some ''one''))]"

definition example_dynamic_groups :: "FieldGroup list" where
  "example_dynamic_groups = [plain_group ''one_again'' 1 None]"

text \<open>
  The state-specific definition shown in \<^verbatim>\<open>src/data-models/data-mappings-guide.md\<close>, with
  lists for FL and CA and a default list, and data contexts that hold a value at its
  state path.
\<close>

definition opt :: "string \<Rightarrow> string \<Rightarrow> DropdownOption" where
  "opt v l = \<lparr>opt_value = v, label = l, disabled = None\<rparr>"

definition roof_type_FL :: "DropdownOption list" where
  "roof_type_FL =
     [opt ''tile'' ''Tile'', opt ''metal'' ''Metal'', opt ''comp_shingle'' ''Composition Shingle'']"

definition roof_type_CA :: "DropdownOption list" where
  "roof_type_CA =
     [opt ''tile'' ''Tile'', opt ''comp_shingle'' ''Composition Shingle'',
      opt ''wood_shake'' ''Wood Shake'']"

definition roof_type_default :: "DropdownOption list" where
  "roof_type_default = [opt ''comp_shingle'' ''Composition Shingle'', opt ''asphalt'' ''Asphalt'']"

definition roof_type_options :: StateSpecificOptions where
  "roof_type_options =
     \<lparr>by_state = [(''FL'', roof_type_FL), (''CA'', roof_type_CA)],
      default_options = roof_type_default\<rparr>"

definition roof_type :: FieldConfiguration where
  "roof_type =
     \<lparr>key = ''home.construction.roof_type'', options = None,
      stateSpecificOptions = Some roof_type_options,
      dependsOnStateFrom = Some ''home.property_address.state'',
      group_fc = Some ''construction_details''\<rparr>"

definition home_in_state :: "json \<Rightarrow> jsval" where
  "home_in_state v =
     Json (JObj [(''home'', JObj [(''property_address'', JObj [(''state'', v)])])])"

text \<open>
  The key \<^verbatim>\<open>client.household_members[0].first_name\<close> with its two dots replaced by the
  characters \<open>c\<close> and \<open>d\<close>.
\<close>

definition dotless_key :: "char \<Rightarrow> char \<Rightarrow> string" where
  "dotless_key c d = ''client'' @ c # ''household_members[0]'' @ d # ''first_name''"

text \<open>The key of the first name of the household member at index \<open>i\<close>.\<close>

definition household_member_key :: "nat \<Rightarrow> string" where
  "household_member_key i =
     ''client.household_members'' @ CHR ''['' # show_nat i @ '']'' @ ''.first_name''"

section \<open>The keys and groups of the field registry\<close>

text \<open>
  The key and the group of each of the 404 entries of \<^verbatim>\<open>FIELD_CONFIGURATIONS\<close>, in the
  order of the source, in seven runs: entries without \<^verbatim>\<open>[*]\<close> and template entries
  alternate.
\<close>

definition client_entries :: "(string \<times> string) list" where
  "client_entries =
     [(''client.first_name'', ''personal_information''),
      (''client.middle_name'', ''personal_information''),
      (''client.last_name'', ''personal_information''),
      (''client.suffix'', ''personal_information''),
      (''client.dob'', ''personal_information''),
      (''client.gender'', ''personal_information''),
      (''client.marital_status'', ''personal_information''),
      (''client.email'', ''personal_information''),
      (''client.mobile_phone'', ''personal_information''),
      (''client.current_address_line1'', ''address''),
      (''client.current_address_line2'', ''address''),
      (''client.current_address_city'', ''address''),
      (''client.current_address_state'', ''address''),
      (''client.current_address_zip'', ''address''),
      (''client.current_address_county'', ''address''),
      (''client.current_address_years'', ''address''),
      (''client.current_address_months'', ''address''),
      (''client.previous_address_line1'', ''address''),
      (''client.previous_address_line2'', ''address''),
      (''client.previous_address_city'', ''address''),
      (''client.previous_address_state'', ''address''),
      (''client.previous_address_zip'', ''address''),
      (''client.previous_address_county'', ''address''),
      (''client.previous_address_years'', ''address''),
      (''client.previous_address_months'', ''address''),
      (''client.education'', ''education_employment''),
      (''client.occupation_role'', ''education_employment''),
      (''client.occupation_industry'', ''education_employment''),
      (''client.years_with_current_employer'', ''education_employment''),
      (''client.license_number'', ''driver_information''),
      (''client.license_state'', ''driver_information''),
      (''client.license_status'', ''driver_information''),
      (''client.age_first_licensed'', ''driver_information''),
      (''client.driver_status'', ''driver_information''),
      (''client.is_good_driver'', ''driver_information''),
      (''client.driver_training'', ''driver_information''),
      (''client.driver_training_date'', ''driver_information''),
      (''client.defensive_driver_course'', ''driver_information''),
      (''client.defensive_driver_course_date'', ''driver_information''),
      (''client.completed_mature_driver_course'', ''driver_information''),
      (''client.requires_sr22'', ''driver_information''),
      (''client.is_military'', ''special_circumstances''),
      (''client.is_student_over_100_miles'', ''special_circumstances''),
      (''client.is_fulltime_student_good_grades'', ''special_circumstances''),
      (''client.has_major_credit_card'', ''special_circumstances''),
      (''client.client_type'', ''internal_information''),
      (''client.producer'', ''internal_information''),
      (''client.client_since'', ''internal_information''),
      (''client.csr'', ''internal_information'')]"

definition household_member_entries :: "(string \<times> string) list" where
  "household_member_entries =
     [(''client.household_members[*].first_name'', ''household_member_template''),
      (''client.household_members[*].middle_name'', ''household_member_template''),
      (''client.household_members[*].last_name'', ''household_member_template''),
      (''client.household_members[*].suffix'', ''household_member_template''),
      (''client.household_members[*].relationship_to_applicant'', ''household_member_template''),
      (''client.household_members[*].dob'', ''household_member_template''),
      (''client.household_members[*].gender'', ''household_member_template''),
      (''client.household_members[*].marital_status'', ''household_member_template''),
      (''client.household_members[*].email'', ''household_member_template''),
      (''client.household_members[*].mobile_phone'', ''household_member_template''),
      (''client.household_members[*].education'', ''household_member_template''),
      (''client.household_members[*].occupation_role'', ''household_member_template''),
      (''client.household_members[*].occupation_industry'', ''household_member_template''),
      (''client.household_members[*].years_with_current_employer'', ''household_member_template''),
      (''client.household_members[*].is_driver'', ''household_member_template''),
      (''client.household_members[*].is_co_applicant'', ''household_member_template''),
      (''client.household_members[*].lives_in_household'', ''household_member_template''),
      (''client.household_members[*].license_number'', ''household_member_template''),
      (''client.household_members[*].license_state'', ''household_member_template''),
      (''client.household_members[*].license_status'', ''household_member_template''),
      (''client.household_members[*].age_first_licensed'', ''household_member_template''),
      (''client.household_members[*].driver_status'', ''household_member_template''),
      (''client.household_members[*].is_good_driver'', ''household_member_template''),
      (''client.household_members[*].driver_training'', ''household_member_template''),
      (''client.household_members[*].driver_training_date'', ''household_member_template''),
      (''client.household_members[*].defensive_driver_course'', ''household_member_template''),
      (''client.household_members[*].defensive_driver_course_date'', ''household_member_template''),
      (''client.household_members[*].completed_mature_driver_course'', ''household_member_template''),
      (''client.household_members[*].requires_sr22'', ''household_member_template''),
      (''client.household_members[*].is_military'', ''household_member_template''),
      (''client.household_members[*].is_student_over_100_miles'', ''household_member_template''),
      (''client.household_members[*].is_fulltime_student_good_grades'', ''household_member_template''),
      (''client.household_members[*].has_major_credit_card'', ''household_member_template'')]"

definition home_entries :: "(string \<times> string) list" where
  "home_entries =
     [(''home.year_built'', ''general_property''),
      (''home.property_square_footage'', ''general_property''),
      (''home.dwelling_type'', ''general_property''),
      (''home.dwelling_style'', ''general_property''),
      (''home.dwelling_usage'', ''general_property''),
      (''home.number_of_stories'', ''general_property''),
      (''home.number_of_rooms'', ''general_property''),
      (''home.number_of_occupants'', ''general_property''),
      (''home.purchase_date'', ''general_property''),
      (''home.purchase_price'', ''general_property''),
      (''home.estimated_market_value'', ''general_property''),
      (''home.estimated_replacement_cost'', ''general_property''),
      (''home.address_line1'', ''general_property''),
      (''home.address_line2'', ''general_property''),
      (''home.address_city'', ''general_property''),
      (''home.address_state'', ''general_property''),
      (''home.address_zip'', ''general_property''),
      (''home.address_county'', ''general_property''),
      (''home.address_is_same_as_current'', ''general_property''),
      (''home.is_inside_city_limits'', ''general_property''),
      (''home.is_gated_community'', ''general_property''),
      (''home.has_24_hour_security_patrol'', ''general_property''),
      (''home.has_24_hour_manned_security_gates'', ''general_property''),
      (''home.is_single_entry_community'', ''general_property''),
      (''home.has_passkey_gates'', ''general_property''),
      (''home.is_under_construction'', ''general_property''),
      (''home.policy_type'', ''general_property''),
      (''home.number_of_families'', ''general_property''),
      (''home.territory_code'', ''general_property''),
      (''home.is_new_construction_under_30_days'', ''general_property''),
      (''home.roofing_renovation_type'', ''exterior''),
      (''home.roofing_update_year'', ''exterior''),
      (''home.roof_material'', ''exterior''),
      (''home.roof_shape'', ''exterior''),
      (''home.roof_pitch_type'', ''exterior''),
      (''home.secondary_roof_type'', ''exterior''),
      (''home.secondary_roof_year_updated'', ''exterior''),
      (''home.has_roof_mounted_solar_panels'', ''exterior''),
      (''home.solar_energy_used'', ''exterior''),
      (''home.construction_type'', ''exterior''),
      (''home.construction_method'', ''exterior''),
      (''home.exterior_walls_material'', ''exterior''),
      (''home.foundation_type'', ''exterior''),
      (''home.foundation_land_type'', ''exterior''),
      (''home.number_of_corners'', ''exterior''),
      (''home.number_of_chimneys'', ''exterior''),
      (''home.porch_type'', ''exterior''),
      (''home.porch_square_footage'', ''exterior''),
      (''home.garage_type'', ''exterior''),
      (''home.garage_capacity'', ''exterior''),
      (''home.garage_area'', ''exterior''),
      (''home.has_detached_structures'', ''exterior''),
      (''home.detached_structure_type'', ''exterior''),
      (''home.home_quality'', ''interior''),
      (''home.kitchen_type'', ''interior''),
      (''home.kitchen_count'', ''interior''),
      (''home.bathroom_type'', ''interior''),
      (''home.number_of_full_bathrooms'', ''interior''),
      (''home.number_of_half_bathrooms'', ''interior''),
      (''home.number_of_three_quarter_bathrooms'', ''interior''),
      (''home.fireplace_type'', ''interior''),
      (''home.fireplace_count'', ''interior''),
      (''home.basement_area'', ''interior''),
      (''home.basement_finishing'', ''interior''),
      (''home.interior_wall_material'', ''interior''),
      (''home.wall_finishes'', ''interior''),
      (''home.floor_finishes'', ''interior''),
      (''home.ceiling_material'', ''interior''),
      (''home.number_of_prefabs'', ''interior''),
      (''home.mobile_home_make'', ''interior''),
      (''home.mobile_home_model'', ''interior''),
      (''home.primary_cooling_source'', ''utility_systems''),
      (''home.primary_heating_source'', ''utility_systems''),
      (''home.secondary_heating_source'', ''utility_systems''),
      (''home.heating_renovation_type'', ''utility_systems''),
      (''home.heating_update_year'', ''utility_systems''),
      (''home.plumbing_renovation_type'', ''utility_systems''),
      (''home.plumbing_update_year'', ''utility_systems''),
      (''home.primary_plumbing_type'', ''utility_systems''),
      (''home.electrical_renovation_type'', ''utility_systems''),
      (''home.electrical_update_year'', ''utility_systems''),
      (''home.electrical_details'', ''utility_systems''),
      (''home.has_circuit_breaker'', ''utility_systems''),
      (''home.has_outdated_wiring'', ''utility_systems''),
      (''home.has_wood_burning_stove'', ''utility_systems''),
      (''home.electrical_circuit_amps'', ''utility_systems''),
      (''home.has_edison_fuses_aluminum_or_knob_tube_wiring'', ''utility_systems''),
      (''home.has_hvac_maintenance_contract'', ''utility_systems''),
      (''home.has_dead_bolt'', ''safety_security''),
      (''home.burglar_alarm_type'', ''safety_security''),
      (''home.smoke_detector_type'', ''safety_security''),
      (''home.fire_detector_type'', ''safety_security''),
      (''home.has_fire_extinguisher'', ''safety_security''),
      (''home.indoor_sprinkler_system_type'', ''safety_security''),
      (''home.fire_protection_class'', ''safety_security''),
      (''home.fire_district_name'', ''safety_security''),
      (''home.fire_district_number'', ''safety_security''),
      (''home.is_within_fire_district'', ''safety_security''),
      (''home.distance_to_fire_station'', ''safety_security''),
      (''home.distance_to_hydrant'', ''safety_security''),
      (''home.distance_to_tidal_water'', ''safety_security''),
      (''home.distance_to_coast'', ''safety_security''),
      (''home.wind_borne_debris_region'', ''safety_security''),
      (''home.high_velocity_hurricane_zone'', ''safety_security''),
      (''home.fire_station_type'', ''safety_security''),
      (''home.responding_fire_department'', ''safety_security''),
      (''home.has_swimming_pool'', ''property_features_risks''),
      (''home.swimming_pool_type'', ''property_features_risks''),
      (''home.is_swimming_pool_fenced'', ''property_features_risks''),
      (''home.has_empty_swimming_pool'', ''property_features_risks''),
      (''home.has_trampoline'', ''property_features_risks''),
      (''home.is_trampoline_fenced'', ''property_features_risks''),
      (''home.has_dogs'', ''property_features_risks''),
      (''home.dog_count'', ''property_features_risks''),
      (''home.dog_breeds'', ''property_features_risks''),
      (''home.dog_has_bite_history'', ''property_features_risks''),
      (''home.has_screened_enclosure'', ''property_features_risks''),
      (''home.screened_enclosure_square_footage'', ''property_features_risks''),
      (''home.has_oil_tank_on_premises'', ''property_features_risks''),
      (''home.has_horses_or_livestock'', ''property_features_risks''),
      (''home.runs_business_or_daycare'', ''property_features_risks''),
      (''home.business_number_of_employees'', ''property_features_risks''),
      (''home.used_for_short_term_rentals'', ''property_features_risks''),
      (''home.occupancy_type'', ''property_features_risks''),
      (''home.primary_or_seasonal_residence'', ''property_features_risks''),
      (''home.rental_frequency'', ''property_features_risks''),
      (''home.is_property_vacant_or_unoccupied'', ''property_features_risks''),
      (''home.is_property_isolated'', ''property_features_risks''),
      (''home.is_occupied_by_undergraduate_students'', ''property_features_risks''),
      (''home.is_in_park'', ''property_features_risks''),
      (''home.park_name'', ''property_features_risks''),
      (''home.has_adjacent_frame_dwellings_within_20_feet'', ''property_features_risks''),
      (''home.has_equity_line_of_credit'', ''financial_interests''),
      (''home.has_financial_interests'', ''financial_interests''),
      (''home.has_other_nonfinancial_interests'', ''financial_interests''),
      (''home.has_cosigner_on_mortgage'', ''financial_interests'')]"

definition additional_interest_entries :: "(string \<times> string) list" where
  "additional_interest_entries =
     [(''home.additional_interests[*].type'', ''additional_interests_template''),
      (''home.additional_interests[*].name'', ''additional_interests_template''),
      (''home.additional_interests[*].loan_number'', ''additional_interests_template''),
      (''home.additional_interests[*].has_foreign_mailing_address'', ''additional_interests_template''),
      (''home.additional_interests[*].mailing_address_1'', ''additional_interests_template''),
      (''home.additional_interests[*].mailing_address_2'', ''additional_interests_template''),
      (''home.additional_interests[*].city'', ''additional_interests_template''),
      (''home.additional_interests[*].state'', ''additional_interests_template''),
      (''home.additional_interests[*].zip_code'', ''additional_interests_template'')]"

definition home_insurance_entries :: "(string \<times> string) list" where
  "home_insurance_entries =
     [(''home.current_insurance.standard_coverages.dwelling_coverage_a'', ''current_coverages''),
      (''home.current_insurance.standard_coverages.other_structures_coverage_b'', ''current_coverages''),
      (''home.current_insurance.standard_coverages.personal_property_coverage_c'', ''current_coverages''),
      (''home.current_insurance.standard_coverages.loss_of_use_coverage_d'', ''current_coverages''),
      (''home.current_insurance.standard_coverages.personal_liability_coverage_e'', ''current_coverages''),
      (''home.current_insurance.standard_coverages.medical_payments_coverage_f'', ''current_coverages''),
      (''home.current_insurance.standard_coverages.all_perils_deductible'', ''current_coverages''),
      (''home.current_insurance.standard_coverages.wind_hail_deductible'', ''current_coverages''),
      (''home.current_insurance.standard_coverages.dwelling_deductible'', ''current_coverages''),
      (''home.current_insurance.optional_coverages.additional_dwellings_rented_enabled'', ''current_endorsements''),
      (''home.current_insurance.optional_coverages.additional_dwellings_rented_count'', ''current_endorsements''),
      (''home.current_insurance.optional_coverages.building_additions_alterations'', ''current_endorsements''),
      (''home.current_insurance.optional_coverages.building_ordinance_law_percent'', ''current_endorsements''),
      (''home.current_insurance.optional_coverages.cyber_protection'', ''current_endorsements''),
      (''home.current_insurance.optional_coverages.earthquake_coverage_limit'', ''current_endorsements''),
      (''home.current_insurance.optional_coverages.earthquake_coverage_limit_building'', ''current_endorsements''),
      (''home.current_insurance.optional_coverages.earthquake_coverage_limit_contents'', ''current_endorsements''),
      (''home.current_insurance.optional_coverages.earthquake_coverage_limit_other_structure'', ''current_endorsements''),
      (''home.current_insurance.optional_coverages.earthquake_deductible_percentage'', ''current_endorsements''),
      (''home.current_insurance.optional_coverages.earthquake_zone'', ''current_endorsements''),
      (''home.current_insurance.optional_coverages.equipment_breakdown'', ''current_endorsements''),
      (''home.current_insurance.optional_coverages.extension_owner_occupied_dwelling_liability_enabled'', ''current_endorsements''),
      (''home.current_insurance.optional_coverages.extension_owner_occupied_dwelling_liability_number_of_locations'', ''current_endorsements''),
      (''home.current_insurance.optional_coverages.extended_replacement_cost_dwelling_percentage'', ''current_endorsements''),
      (''home.current_insurance.optional_coverages.foundation_coverage'', ''current_endorsements''),
      (''home.current_insurance.optional_coverages.home_day_care_coverage'', ''current_endorsements''),
      (''home.current_insurance.optional_coverages.home_sharing_coverage'', ''current_endorsements''),
      (''home.current_insurance.optional_coverages.hurricane_named_storm_deductible'', ''current_endorsements''),
      (''home.current_insurance.optional_coverages.identity_theft'', ''current_endorsements''),
      (''home.current_insurance.optional_coverages.incidental_farming_personal_liability'', ''current_endorsements''),
      (''home.current_insurance.optional_coverages.increased_coverage_credit_card_amount'', ''current_endorsements''),
      (''home.current_insurance.optional_coverages.increased_limit_jewelry_watches_furs'', ''current_endorsements''),
      (''home.current_insurance.optional_coverages.increased_mold_property_damage'', ''current_endorsements''),
      (''home.current_insurance.optional_coverages.increased_mold_property_liability'', ''current_endorsements''),
      (''home.current_insurance.optional_coverages.landlord_furnishings'', ''current_endorsements''),
      (''home.current_insurance.optional_coverages.limited_earthquake_coverage_limit'', ''current_endorsements''),
      (''home.current_insurance.optional_coverages.loss_assessment_amount'', ''current_endorsements''),
      (''home.current_insurance.optional_coverages.loss_settlement_type_personal_property'', ''current_endorsements''),
      (''home.current_insurance.optional_coverages.roof_settlement_type'', ''current_endorsements''),
      (''home.current_insurance.optional_coverages.matching_undamaged_siding_roofing_windows'', ''current_endorsements''),
      (''home.current_insurance.optional_coverages.mine_subsidence'', ''current_endorsements''),
      (''home.current_insurance.optional_coverages.outboard_motor_liability'', ''current_endorsements''),
      (''home.current_insurance.optional_coverages.permitted_incidental_business_occupancy'', ''current_endorsements''),
      (''home.current_insurance.optional_coverages.personal_injury'', ''current_endorsements''),
      (''home.current_insurance.optional_coverages.personal_offense'', ''current_endorsements''),
      (''home.current_insurance.optional_coverages.personal_property_replacement_cost'', ''current_endorsements''),
      (''home.current_insurance.optional_coverages.refrigerated_products'', ''current_endorsements''),
      (''home.current_insurance.optional_coverages.residence_glass'', ''current_endorsements''),
      (''home.current_insurance.optional_coverages.service_line_endorsement'', ''current_endorsements''),
      (''home.current_insurance.optional_coverages.sinkhole_collapse'', ''current_endorsements''),
      (''home.current_insurance.optional_coverages.special_personal_property'', ''current_endorsements''),
      (''home.current_insurance.optional_coverages.theft_of_building_materials'', ''current_endorsements''),
      (''home.current_insurance.optional_coverages.valuable_articles_coverage_type'', ''current_endorsements''),
      (''home.current_insurance.optional_coverages.valuable_articles_coins_amount'', ''current_endorsements''),
      (''home.current_insurance.optional_coverages.valuable_articles_fine_art_amount'', ''current_endorsements''),
      (''home.current_insurance.optional_coverages.valuable_articles_furs_amount'', ''current_endorsements''),
      (''home.current_insurance.optional_coverages.valuable_articles_guns_amount'', ''current_endorsements''),
      (''home.current_insurance.optional_coverages.valuable_articles_jewelry_amount'', ''current_endorsements''),
      (''home.current_insurance.optional_coverages.valuable_articles_musical_instruments_amount'', ''current_endorsements''),
      (''home.current_insurance.optional_coverages.valuable_articles_silverware_amount'', ''current_endorsements''),
      (''home.current_insurance.optional_coverages.water_backup_sewers_drains_coverage'', ''current_endorsements''),
      (''home.current_insurance.optional_coverages.water_backup_sewers_drains_deductible'', ''current_endorsements''),
      (''home.current_insurance.optional_coverages.water_seepage_leakage'', ''current_endorsements''),
      (''home.current_insurance.optional_coverages.water_deductible'', ''current_endorsements''),
      (''home.current_insurance.optional_coverages.limited_fungi_wet_dry_rot_bacteria'', ''current_endorsements''),
      (''home.current_insurance.optional_coverages.animal_liability'', ''current_endorsements''),
      (''home.current_insurance.optional_coverages.screen_enclosure_carport_awning'', ''current_endorsements''),
      (''home.current_insurance.optional_coverages.sinkhole_loss_coverage'', ''current_endorsements''),
      (''home.current_insurance.optional_coverages.sinkhole_deductible'', ''current_endorsements''),
      (''home.current_insurance.optional_coverages.social_media_expense_resolution_services'', ''current_endorsements''),
      (''home.current_insurance.has_current_insurance'', ''insurance_history''),
      (''home.current_insurance.carrier_name'', ''insurance_history''),
      (''home.current_insurance.writing_company'', ''insurance_history''),
      (''home.current_insurance.policy_number'', ''insurance_history''),
      (''home.current_insurance.premium'', ''insurance_history''),
      (''home.current_insurance.payment_frequency'', ''insurance_history''),
      (''home.current_insurance.term_start_date'', ''insurance_history''),
      (''home.current_insurance.term_expiration_date'', ''insurance_history''),
      (''home.current_insurance.time_with_carrier'', ''insurance_history''),
      (''home.current_insurance.continuous_insurance_duration'', ''insurance_history''),
      (''home.current_insurance.has_been_cancelled_or_declined'', ''insurance_history''),
      (''home.current_insurance.has_lapse_in_coverage_past_year'', ''insurance_history''),
      (''home.prior_carriers'', ''insurance_history''),
      (''home.has_claims_last_5_years'', ''claims_history''),
      (''home.number_of_claims'', ''claims_history''),
      (''home.claims'', ''claims_history''),
      (''home.wind_mitigation.inspection_date'', ''wind_mitigation''),
      (''home.wind_mitigation.terrain'', ''wind_mitigation''),
      (''home.wind_mitigation.roof_covering'', ''wind_mitigation''),
      (''home.wind_mitigation.roof_deck_attachment'', ''wind_mitigation''),
      (''home.wind_mitigation.roof_to_wall_attachment'', ''wind_mitigation''),
      (''home.wind_mitigation.secondary_water_resistance'', ''wind_mitigation''),
      (''home.wind_mitigation.opening_protection'', ''wind_mitigation''),
      (''home.wind_mitigation.wind_speed'', ''wind_mitigation''),
      (''home.wind_mitigation.wind_design'', ''wind_mitigation''),
      (''home.current_insurance.flood_coverage.include_flood_coverage'', ''flood_coverage''),
      (''home.current_insurance.flood_coverage.has_prior_flood_losses_on_building'', ''flood_coverage''),
      (''home.current_insurance.flood_coverage.flood_building_limit'', ''flood_coverage''),
      (''home.current_insurance.flood_coverage.flood_content_limit'', ''flood_coverage''),
      (''home.current_insurance.flood_coverage.flood_coverage_deductible'', ''flood_coverage''),
      (''home.current_insurance.flood_coverage.firm_indicator'', ''flood_coverage''),
      (''home.current_insurance.flood_coverage.rated_as_preferred'', ''flood_coverage''),
      (''home.current_insurance.flood_coverage.elevation_difference'', ''flood_coverage''),
      (''home.current_insurance.flood_coverage.has_elevation_certificate'', ''flood_coverage''),
      (''home.current_insurance.roof_coverage.estimated_roof_replacement_cost'', ''roof_coverage''),
      (''home.current_insurance.roof_coverage.actual_cash_value_roof'', ''roof_coverage''),
      (''home.current_insurance.roof_coverage.roof_deductible_percentage_of_coverage_a'', ''roof_coverage''),
      (''auto.desired_policy_start_date'', ''auto_policy_information''),
      (''auto.new_policy_term'', ''auto_policy_information''),
      (''auto.interested_in_usage_based_discount'', ''auto_policy_information''),
      (''auto.wants_electronic_documents'', ''auto_policy_information''),
      (''auto.violations_claims'', ''violations_claims'')]"

definition vehicle_entries :: "(string \<times> string) list" where
  "vehicle_entries =
     [(''auto.vehicles[*].year'', ''vehicle_details''),
      (''auto.vehicles[*].make'', ''vehicle_details''),
      (''auto.vehicles[*].model'', ''vehicle_details''),
      (''auto.vehicles[*].vin'', ''vehicle_details''),
      (''auto.vehicles[*].vehicle_type'', ''vehicle_details''),
      (''auto.vehicles[*].purchased_date'', ''vehicle_details''),
      (''auto.vehicles[*].original_cost'', ''vehicle_details''),
      (''auto.vehicles[*].base_list_price'', ''vehicle_details''),
      (''auto.vehicles[*].agreed_value'', ''vehicle_details''),
      (''auto.vehicles[*].ownership_status'', ''vehicle_ownership''),
      (''auto.vehicles[*].primary_driver'', ''vehicle_ownership''),
      (''auto.vehicles[*].registered_owner'', ''vehicle_ownership''),
      (''auto.vehicles[*].ownership_duration'', ''vehicle_ownership''),
      (''auto.vehicles[*].is_rented_leased_for_fee'', ''vehicle_ownership''),
      (''auto.vehicles[*].is_weight_between_14k_16k_and_used_for_farm'', ''vehicle_ownership''),
      (''auto.vehicles[*].is_camper_unit_included'', ''vehicle_ownership''),
      (''auto.vehicles[*].primary_use'', ''vehicle_usage''),
      (''auto.vehicles[*].distance_to_work_or_school'', ''vehicle_usage''),
      (''auto.vehicles[*].days_driven_per_week'', ''vehicle_usage''),
      (''auto.vehicles[*].annual_mileage'', ''vehicle_usage''),
      (''auto.vehicles[*].used_for_rideshare'', ''vehicle_usage''),
      (''auto.vehicles[*].suspension_indicator'', ''vehicle_features''),
      (''auto.vehicles[*].has_anti_theft_device'', ''vehicle_features''),
      (''auto.vehicles[*].has_anti_lock_brakes'', ''vehicle_features''),
      (''auto.vehicles[*].garaging_address_street'', ''garaging_address''),
      (''auto.vehicles[*].garaging_address_apt_unit'', ''garaging_address''),
      (''auto.vehicles[*].garaging_address_city'', ''garaging_address''),
      (''auto.vehicles[*].garaging_address_state'', ''garaging_address''),
      (''auto.vehicles[*].garaging_address_zip'', ''garaging_address''),
      (''auto.vehicles[*].coverages.collision'', ''vehicle_coverages''),
      (''auto.vehicles[*].coverages.comprehensive'', ''vehicle_coverages''),
      (''auto.vehicles[*].coverages.auto_loan_lease'', ''vehicle_coverages''),
      (''auto.vehicles[*].coverages.roadside_assistance'', ''vehicle_coverages''),
      (''auto.vehicles[*].coverages.rental_transportation_expense'', ''vehicle_coverages''),
      (''auto.vehicles[*].coverages.towing'', ''vehicle_coverages''),
      (''auto.vehicles[*].coverages.customized_equipment'', ''vehicle_coverages''),
      (''auto.vehicles[*].coverages.custom_audio_system'', ''vehicle_coverages''),
      (''auto.vehicles[*].coverages.auto_replacement'', ''vehicle_coverages''),
      (''auto.vehicles[*].coverages.original_equipment_manufacturers_coverage'', ''vehicle_coverages''),
      (''auto.vehicles[*].coverages.mexico_coverage'', ''vehicle_coverages''),
      (''auto.vehicles[*].coverages.ride_sharing'', ''vehicle_coverages''),
      (''auto.vehicles[*].coverages.portable_electronic_media'', ''vehicle_coverages''),
      (''auto.vehicles[*].coverages.trip_interruption'', ''vehicle_coverages''),
      (''auto.vehicles[*].coverages.diminishing_deductible'', ''vehicle_coverages'')]"

definition auto_insurance_entries :: "(string \<times> string) list" where
  "auto_insurance_entries =
     [(''auto.current_insurance.has_current_insurance'', ''current_insurance_details''),
      (''auto.current_insurance.has_prior_30_days_insurance'', ''current_insurance_details''),
      (''auto.current_insurance.continuous_insurance_duration'', ''current_insurance_details''),
      (''auto.current_insurance.carrier_name'', ''current_insurance_details''),
      (''auto.current_insurance.policy_number'', ''current_insurance_details''),
      (''auto.current_insurance.writing_company'', ''current_insurance_details''),
      (''auto.current_insurance.premium'', ''current_insurance_details''),
      (''auto.current_insurance.term_start_date'', ''current_insurance_details''),
      (''auto.current_insurance.term_expiration_date'', ''current_insurance_details''),
      (''auto.current_insurance.time_with_carrier'', ''current_insurance_details''),
      (''auto.current_insurance.reason_for_no_insurance'', ''current_insurance_details''),
      (''auto.current_insurance.policy_coverages.bodily_injury'', ''current_insurance_details''),
      (''auto.current_insurance.policy_coverages.property_damage_liability'', ''current_insurance_details''),
      (''auto.current_insurance.policy_coverages.medical_payments'', ''current_insurance_details''),
      (''auto.current_insurance.policy_coverages.uninsured_motorists_bodily_injury'', ''current_insurance_details''),
      (''auto.current_insurance.policy_coverages.underinsured_motorists_bodily_injury'', ''current_insurance_details''),
      (''auto.current_insurance.policy_coverages.extended_non_owned_liability'', ''current_insurance_details''),
      (''auto.current_insurance.policy_coverages.first_accident_forgiveness'', ''current_insurance_details''),
      (''auto.current_insurance.policy_coverages.personal_injury_protection'', ''current_insurance_details''),
      (''auto.current_insurance.policy_coverages.uninsured_motorist_property_damage'', ''current_insurance_details''),
      (''auto.current_insurance.policy_coverages.underinsured_motorist_property_damage'', ''current_insurance_details'')]"

definition source_entries :: "(string \<times> string) list" where
  "source_entries =
     client_entries @ household_member_entries @ home_entries @ additional_interest_entries
     @ home_insurance_entries @ vehicle_entries @ auto_insurance_entries"

text \<open>A registry whose entries have the keys and the groups of the source.\<close>

definition has_source_entries :: "(string \<times> 'a FieldConfiguration_scheme) list \<Rightarrow> bool" where
  "has_source_entries FIELD_CONFIGURATIONS =
     (map (\<lambda>(k, config). (k, group_fc config)) FIELD_CONFIGURATIONS
        = map (\<lambda>(k, g). (k, Some g)) source_entries)"

text \<open>The registry with these entries and nothing else in its definitions.\<close>

definition bare_registry :: "(string \<times> FieldConfiguration) list" where
  "bare_registry =
     map (\<lambda>(k, g). (k, \<lparr>key = k, options = None, stateSpecificOptions = None,
                           dependsOnStateFrom = None, group_fc = Some g\<rparr>)) source_entries"
section \<open>Facts about the addition of doubles\<close>

lemma two_to_pos: "0 < two_to e"
  by (simp add: two_to_def)

lemma round_half_even_int: "round_half_even (of_int z) = z"
  by (simp add: round_half_even_def)

lemma exponent_of_int_le:
  assumes "0 < a" and "a < 2 ^ 53"
  shows "exponent_of (of_int a) \<le> 52"
proof -
  from bitlen_bounds[OF assms(1)] assms(2) have "(2::int) ^ nat (bitlen a - 1) < 2 ^ 53"
    by linarith
  then have "nat (bitlen a - 1) < 53"
    by (simp only: power_strict_increasing_iff one_less_numeral_iff semiring_norm)
  then have "bitlen a \<le> 53"
    by linarith
  moreover have "bitlen 1 = 1"
    by code_simp
  ultimately show ?thesis
    by (simp add: exponent_of_def Let_def)
qed

lemma scaled_int:
  assumes "q \<le> 0"
  shows "of_int a / two_to q = of_int (a * 2 ^ nat (- q))" "of_int (a * 2 ^ nat (- q)) * two_to q = of_int a"
  using assms by (auto simp: two_to_def)

lemma round_double_pos_int:
  assumes "0 < a" and "a < 2 ^ 53"
  shows "round_double (of_int a) = Num (of_int a)" "round_double (- of_int a) = Num (- of_int a)"
proof -
  define q where "q = max (exponent_of (of_int a) - 52) (- 1074)"
  from exponent_of_int_le[OF assms] have q: "q \<le> 0"
    by (simp add: q_def)
  have m: "round_half_even (of_int a / two_to q) = a * 2 ^ nat (- q)"
    by (simp only: scaled_int(1)[OF q] round_half_even_int)
  have y: "of_int (a * 2 ^ nat (- q)) * two_to q = (of_int a :: rat)"
    by (rule scaled_int(2)[OF q])
  have big: "\<not> two_to 1024 \<le> (of_int a :: rat)"
  proof -
    from assms(2) have "(of_int a :: rat) < of_int (2 ^ 53)"
      by (simp only: of_int_less_iff)
    also have "\<dots> < two_to 1024"
      by (simp add: two_to_def)
    finally show ?thesis by simp
  qed
  from assms(1) have nz: "a * 2 ^ nat (- q) \<noteq> 0" "(of_int a :: rat) \<noteq> 0" "0 < (of_int a :: rat)"
    by simp_all
  have abs: "\<bar>of_int a :: rat\<bar> = of_int a" "\<bar>- of_int a :: rat\<bar> = of_int a"
    using assms(1) by simp_all
  show "round_double (of_int a) = Num (of_int a)"
    unfolding round_double_def abs q_def[symmetric] Let_def m y
    using big nz by simp
  show "round_double (- of_int a) = Num (- of_int a)"
    unfolding round_double_def abs q_def[symmetric] Let_def m y
    using big nz by simp
qed

lemma round_double_integer:
  assumes "\<bar>k\<bar> < 2 ^ 53"
  shows "round_double (of_int k) = Num (of_int k)"
proof (cases "k = 0")
  case True
  then show ?thesis by (simp add: round_double_def)
next
  case False
  show ?thesis
  proof (cases "0 < k")
    case True
    with assms round_double_pos_int(1)[of k] show ?thesis by simp
  next
    case neg: False
    with False assms round_double_pos_int(2)[of "- k"] show ?thesis by simp
  qed
qed

text \<open>
  The sum of an integer order and an index is exact while it stays below \<open>2^53\<close> in
  absolute value.
\<close>

lemma number_plus_integers:
  assumes "\<bar>n + int i\<bar> < 2 ^ 53"
  shows "number_plus (Num (of_int n)) (Num (of_nat i)) = Num (of_int (n + int i))"
proof -
  have s: "(of_int n :: rat) + of_nat i = of_int (n + int i)"
    by simp
  show ?thesis
    by (simp only: number_plus.simps s round_double_integer[OF assms])
qed

lemma round_double_examples:
  "round_double 3 = Num 3" "round_double 4 = Num 4" "round_double 5 = Num 5"
  "round_double 7 = Num 7" "round_double 8 = Num 8"
  using round_double_integer[of 3] round_double_integer[of 4] round_double_integer[of 5]
    round_double_integer[of 7] round_double_integer[of 8]
  by simp_all

lemma floor_of_halves:
  "\<lfloor>9007199254740993 / 2 :: rat\<rfloor> = 4503599627370496"
  "\<lfloor>9007199254740992 / 2 :: rat\<rfloor> = 4503599627370496"
  by code_simp+

lemma bitlen_of_large:
  "bitlen 9007199254740993 = 54" "bitlen 9007199254740992 = 54" "bitlen 1 = 1"
  by code_simp+

text \<open>Above \<open>2^53\<close> a sum is rounded: \<open>2^53 + 1\<close> is \<open>2^53\<close>.\<close>

lemma round_double_large:
  "round_double 9007199254740992 = Num 9007199254740992"
  "round_double 9007199254740993 = Num 9007199254740992"
  by (simp_all add: round_double_def exponent_of_def two_to_def round_half_even_def Let_def
      bitlen_of_large floor_of_halves)

section \<open>Facts about the matcher and the group rewrite\<close>

lemma read_property_own:
  "distinct (map fst obj) \<Longrightarrow> (k, v) \<in> set obj \<Longrightarrow> read_property obj k = Own v"
  by (simp add: read_property_def lookup_property_def)

lemma read_property_missing:
  "map_of obj k = None \<Longrightarrow> k \<notin> set Object_prototype_names \<Longrightarrow>
   read_property obj k = Missing"
  by (simp add: read_property_def lookup_property_def)

lemma read_property_inherited:
  "map_of obj k = None \<Longrightarrow> k \<in> set Object_prototype_names \<Longrightarrow>
   read_property obj k = FromPrototype k"
  by (simp add: read_property_def lookup_property_def)

lemma bracketed_first_char: "bracketed s = Some r \<Longrightarrow> CHR ''['' \<in> set s"
  by (cases s) (auto simp: bracketed_def split: if_splits)

lemma regex_test_index:
  "regex_test regex s \<Longrightarrow> Index \<in> set regex \<Longrightarrow>
   CHR ''['' \<in> set s \<and> first_bracketed s \<noteq> None"
proof (induction regex s rule: regex_test.induct)
  case (1 s)
  then show ?case by simp
next
  case (2 c as s)
  then show ?case by (cases s) (auto split: option.splits)
next
  case (3 as s)
  then show ?case by (cases s) (auto split: option.splits)
next
  case (4 as s)
  from "4.prems"(1) obtain ds rest where b: "bracketed s = Some (ds, rest)"
    by (auto split: option.splits)
  then have "CHR ''['' \<in> set s" by (rule bracketed_first_char)
  moreover have "first_bracketed s \<noteq> None"
    using b by (cases s) (auto simp: bracketed_def)
  ultimately show ?case by simp
qed

lemma includes_placeholder_cases:
  "includes_str (c # cs) ''[*]'' \<Longrightarrow> placeholder_rest (c # cs) = None \<Longrightarrow>
   includes_str cs ''[*]''"
  by (auto simp: placeholder_rest_def split: if_splits)

lemma template_regex_has_index:
  "includes_str templateKey ''[*]'' \<Longrightarrow> template_regex templateKey = Some regex \<Longrightarrow>
   Index \<in> set regex"
proof (induction templateKey arbitrary: regex rule: template_regex.induct)
  case 1
  then show ?case by simp
next
  case (2 c cs)
  show ?case
  proof (cases "placeholder_rest (c # cs)")
    case None
    with "2.prems"(1) have inc: "includes_str cs ''[*]''"
      by (rule_tac includes_placeholder_cases)
    show ?thesis
    proof (cases "c = CHR ''.''")
      case True
      with None "2.prems"(2) obtain r
        where r: "template_regex cs = Some r" and "regex = AnyChar # r"
        by auto
      with "2.IH" None True inc show ?thesis by auto
    next
      case False
      with None "2.prems"(2) have ns: "c \<notin> set regex_syntax_chars"
        by (auto split: if_splits)
      with False None "2.prems"(2) obtain r
        where r: "template_regex cs = Some r" and "regex = Lit c # r"
        by auto
      with "2.IH" None False ns inc show ?thesis by auto
    qed
  next
    case (Some rest)
    with "2.prems"(2) show ?thesis by auto
  qed
qed

lemma bracket_not_prototype_name:
  "CHR ''['' \<in> set k \<Longrightarrow> k \<notin> set Object_prototype_names"
  by (auto simp: Object_prototype_names_def)

lemma matched_has_index:
  assumes "matched templateKey dataFieldKey"
  shows "CHR ''['' \<in> set dataFieldKey \<and> first_bracketed dataFieldKey \<noteq> None"
proof -
  from assms obtain regex where r: "template_regex templateKey = Some regex"
    and t: "regex_test regex dataFieldKey" and i: "includes_str templateKey ''[*]''"
    by (auto simp: matched_def split: option.splits)
  from template_regex_has_index[OF i r] have "Index \<in> set regex" .
  with t show ?thesis by (rule regex_test_index)
qed

lemma template_matching_passed_over:
  "\<forall>(tk, c) \<in> set earlier. passed_over tk dataFieldKey \<Longrightarrow>
   template_matching (earlier @ entries) dataFieldKey = template_matching entries dataFieldKey"
  by (induction earlier) (auto simp: passed_over_def split: option.splits)

lemma template_matching_matched:
  "matched templateKey dataFieldKey \<Longrightarrow>
   template_matching ((templateKey, config) # later) dataFieldKey =
     bind_outcome (index_text (bracket_index dataFieldKey))
       (\<lambda>idx. Returns (Definition
          (config\<lparr>key := dataFieldKey, group_fc := dynamic_group (group_fc config) idx\<rparr>)))"
  by (auto simp: matched_def split: option.splits)

lemma replace_first_absent:
  "\<not> includes_str g needle \<Longrightarrow> replace_first needle rep g = g"
  by (induction g) auto

lemma prefix_append_long: "length n \<le> length u \<Longrightarrow> prefix n (u @ v) = prefix n u"
  by (auto simp: prefix_append)

lemma replace_first_at:
  assumes "needle \<noteq> []" and "\<not> includes_str (a @ butlast needle) needle"
  shows "replace_first needle rep (a @ needle @ b) = a @ rep @ b"
  using assms(2)
proof (induction a)
  case Nil
  from assms(1) obtain c cs where "needle @ b = c # cs \<and> prefix needle (c # cs)"
    by (cases needle) auto
  then show ?case
    by (metis append_Nil replace_first.simps(2) append_eq_conv_conj)
next
  case (Cons x a)
  have len: "length needle \<le> length (x # a @ butlast needle)"
    by simp
  from Cons.prems have np: "\<not> prefix needle (x # a @ butlast needle)"
    and rest: "\<not> includes_str (a @ butlast needle) needle"
    by auto
  have "x # a @ needle @ b = (x # a @ butlast needle) @ (last needle # b)"
    using assms(1) by simp
  with np len have "\<not> prefix needle (x # a @ needle @ b)"
    by (metis prefix_append_long)
  with Cons.IH[OF rest] show ?case by simp
qed

lemma dynamic_group_None: "dynamic_group None idx = None"
  by (simp add: dynamic_group_def)

lemma dynamic_group_absent:
  "\<not> includes_str g ''_template'' \<Longrightarrow> dynamic_group (Some g) idx = Some g"
  by (simp add: dynamic_group_def replace_first_absent Let_def)

lemma dynamic_group_first:
  assumes "\<not> includes_str (a @ ''_templat'') ''_template''"
  shows "dynamic_group (Some (a @ ''_template'' @ b)) idx = Some (a @ ''_'' @ idx @ b)"
proof -
  have "replace_first ''_template'' (CHR ''_'' # idx) (a @ ''_template'' @ b)
      = a @ (CHR ''_'' # idx) @ b"
    using assms by (intro replace_first_at) simp_all
  then show ?thesis
    by (simp add: dynamic_group_def Let_def)
qed

lemma resolve_first_match:
  assumes "map_of FIELD_CONFIGURATIONS dataFieldKey = None"
    and "FIELD_CONFIGURATIONS = earlier @ (templateKey, config) # later"
    and "\<forall>(tk, c) \<in> set earlier. passed_over tk dataFieldKey"
    and "matched templateKey dataFieldKey"
    and "bracket_index dataFieldKey \<le> max_safe_integer"
  shows "getFieldConfigForDataField FIELD_CONFIGURATIONS dataFieldKey
    = Returns (Definition (config\<lparr>key := dataFieldKey,
        group_fc := dynamic_group (group_fc config) (show_nat (bracket_index dataFieldKey))\<rparr>))"
proof -
  from matched_has_index[OF assms(4)] have br: "CHR ''['' \<in> set dataFieldKey"
    by simp
  have "read_property FIELD_CONFIGURATIONS dataFieldKey = Missing"
    using assms(1) bracket_not_prototype_name[OF br] by (rule read_property_missing)
  then have "getFieldConfigForDataField FIELD_CONFIGURATIONS dataFieldKey =
      template_matching ((templateKey, config) # later) dataFieldKey"
    using assms(2,3) by (simp add: getFieldConfigForDataField_def template_matching_passed_over)
  also have "\<dots> = bind_outcome (index_text (bracket_index dataFieldKey))
       (\<lambda>idx. Returns (Definition
          (config\<lparr>key := dataFieldKey, group_fc := dynamic_group (group_fc config) idx\<rparr>)))"
    by (rule template_matching_matched[OF assms(4)])
  finally show ?thesis
    using assms(5) by (simp add: index_text_def)
qed

lemma template_matching_none:
  "\<forall>(tk, c) \<in> set entries. passed_over tk dataFieldKey \<Longrightarrow>
   template_matching entries dataFieldKey = Returns NotFound"
  using template_matching_passed_over[of entries dataFieldKey "[]"] by simp

lemma unmatched_key_not_found:
  assumes "map_of FIELD_CONFIGURATIONS dataFieldKey = None"
    and "dataFieldKey \<notin> set Object_prototype_names"
    and "\<forall>(tk, c) \<in> set FIELD_CONFIGURATIONS. passed_over tk dataFieldKey"
  shows "getFieldConfigForDataField FIELD_CONFIGURATIONS dataFieldKey = Returns NotFound"
  using assms
  by (simp add: getFieldConfigForDataField_def read_property_missing template_matching_none)

lemma prototype_key_not_null:
  assumes "map_of FIELD_CONFIGURATIONS dataFieldKey = None"
    and "dataFieldKey \<in> set Object_prototype_names"
  shows "getFieldConfigForDataField FIELD_CONFIGURATIONS dataFieldKey
    = Returns (PrototypeMember dataFieldKey)"
  using assms by (simp add: getFieldConfigForDataField_def read_property_inherited)

text \<open>The text of a number is made of digits, and \<^verbatim>\<open>parseInt\<close> reads it back.\<close>

lemma mod_10_cases:
  "(d::nat) mod 10 = 0 \<or> d mod 10 = 1 \<or> d mod 10 = 2 \<or> d mod 10 = 3 \<or> d mod 10 = 4
   \<or> d mod 10 = 5 \<or> d mod 10 = 6 \<or> d mod 10 = 7 \<or> d mod 10 = 8 \<or> d mod 10 = 9"
  by presburger

lemma digit_value_digit_char: "digit_value (digit_char d) = d mod 10"
  using mod_10_cases[of d]
  by (elim disjE) (simp_all add: digit_value_def digit_char_def)

lemma is_digit_digit_char: "is_digit (digit_char d)"
  using mod_10_cases[of d]
  by (elim disjE) (simp_all add: is_digit_def digit_char_def)

lemma parseInt_snoc: "parseInt (ds @ [c]) = 10 * parseInt ds + digit_value c"
  by (simp add: parseInt_def)

lemma parseInt_show_nat: "parseInt (show_nat n) = n"
proof (induction n rule: show_nat.induct)
  case (1 n)
  show ?case
  proof (cases "n < 10")
    case True
    then show ?thesis
      by (subst show_nat.simps) (simp add: parseInt_def digit_value_digit_char)
  next
    case False
    with "1.IH" show ?thesis
      by (subst show_nat.simps) (simp add: parseInt_snoc digit_value_digit_char)
  qed
qed

lemma show_nat_digits: "show_nat n \<noteq> [] \<and> (\<forall>c \<in> set (show_nat n). is_digit c)"
proof (induction n rule: show_nat.induct)
  case (1 n)
  show ?case
  proof (cases "n < 10")
    case True
    then show ?thesis
      by (subst (1 2) show_nat.simps) (simp add: is_digit_digit_char)
  next
    case False
    with "1.IH" show ?thesis
      by (subst (1 2) show_nat.simps) (simp add: is_digit_digit_char)
  qed
qed

lemma bracketed_show_nat:
  "bracketed (CHR ''['' # show_nat i @ CHR '']'' # rest) = Some (show_nat i, rest)"
proof -
  have d: "\<forall>c \<in> set (show_nat i). is_digit c" and n: "show_nat i \<noteq> []"
    using show_nat_digits[of i] by simp_all
  have "\<not> is_digit CHR '']''"
    by (simp add: is_digit_def)
  with d have "takeWhile is_digit (show_nat i @ CHR '']'' # rest) = show_nat i"
    and "dropWhile is_digit (show_nat i @ CHR '']'' # rest) = CHR '']'' # rest"
    by (simp_all add: takeWhile_append2 dropWhile_append2)
  with n show ?thesis
    by (simp add: bracketed_def)
qed

section \<open>Facts about the Materializer and the two loops of the Hierarchy Builder\<close>

lemma collection_array:
  assumes "map_of doc section_name = Some (JObj props)"
    and "map_of props collection_name = Some (JArr xs)"
  shows "collection (Json (JObj doc)) section_name collection_name = Returns (Json (JArr xs))"
  using assms by (simp add: collection_def read_property_def lookup_property_def optional_member_def)

lemma collection_no_section:
  assumes "map_of doc section_name = None \<or> map_of doc section_name = Some JNull"
    and "section_name \<notin> set Object_prototype_names"
  shows "collection (Json (JObj doc)) section_name collection_name = Returns (Json (JArr []))"
  using assms by (auto simp: collection_def read_property_def lookup_property_def optional_member_def)

lemma collection_no_collection:
  assumes "map_of doc section_name = Some (JObj props)"
    and "map_of props collection_name = None
         \<or> (\<exists>v. map_of props collection_name = Some v \<and> \<not> truthy (Json v))"
    and "collection_name \<notin> set Object_prototype_names"
  shows "collection (Json (JObj doc)) section_name collection_name = Returns (Json (JArr []))"
  using assms by (auto simp: collection_def read_property_def lookup_property_def optional_member_def)

lemma collection_truthy:
  assumes "map_of doc section_name = Some (JObj props)"
    and "map_of props collection_name = Some v" and "truthy (Json v)"
  shows "collection (Json (JObj doc)) section_name collection_name = Returns (Json v)"
  using assms by (auto simp: collection_def read_property_def lookup_property_def optional_member_def)

lemma collection_no_document:
  "collection Undefined section_name collection_name = Throws TypeError"
  "collection (Json JNull) section_name collection_name = Throws TypeError"
  by (simp_all add: collection_def)

lemma forEach_push_no_array:
  assumes "truthy (Json v)" and "\<forall>xs. v \<noteq> JArr xs"
  shows "forEach_push (Json v) mk = Throws TypeError"
  using assms by (cases v) (simp_all add: forEach_push_def)

lemma template_groups_vehicles:
  assumes "isTemplate template = Some True"
    and "templatePattern template = Some ''auto.vehicles[*]''"
  shows "template_groups data template =
     bind_outcome (collection data ''auto'' ''vehicles'')
       (\<lambda>vehicles. forEach_push vehicles (vehicle_group template))"
  using assms
  by (cases "collection data ''auto'' ''vehicles''")
     (auto simp: template_groups_def forEach_push_def split: jsval.splits json.splits)

lemma createDynamicGroups_single:
  "createDynamicGroups data [template] = template_groups data template"
  by (cases "template_groups data template") auto

lemmas groups_eval =
  template_groups_def collection_def optional_member_def forEach_push_def
  read_property_def lookup_property_def Object_prototype_names_def
  vehicle_group_def household_member_group_def show_nat.simps digit_char_def

lemma createDynamicGroups_append:
  "createDynamicGroups data (ts1 @ ts2) =
     bind_outcome (createDynamicGroups data ts1) (\<lambda>a.
     bind_outcome (createDynamicGroups data ts2) (\<lambda>b. Returns (a @ b)))"
proof (induction ts1)
  case Nil
  show ?case by (cases "createDynamicGroups data ts2") auto
next
  case (Cons t ts1)
  show ?case
    by (cases "template_groups data t"; cases "createDynamicGroups data ts1";
        cases "createDynamicGroups data ts2") (auto simp: Cons.IH)
qed

text \<open>A template in the middle of the list: the templates are handled one after another.\<close>

lemma createDynamicGroups_middle:
  "createDynamicGroups data (earlier @ template # later) =
     bind_outcome (createDynamicGroups data earlier) (\<lambda>before.
     bind_outcome (template_groups data template) (\<lambda>added.
     bind_outcome (createDynamicGroups data later) (\<lambda>after.
       Returns (before @ added @ after))))"
  by (cases "createDynamicGroups data earlier"; cases "template_groups data template";
      cases "createDynamicGroups data later")
     (simp_all add: createDynamicGroups_append)

lemma createDynamicGroups_middle_none:
  assumes "template_groups data template = Returns []"
  shows "createDynamicGroups data (earlier @ template # later)
       = createDynamicGroups data (earlier @ later)"
  by (cases "createDynamicGroups data earlier"; cases "createDynamicGroups data later")
     (simp_all add: createDynamicGroups_append assms)

lemma map_of_set_own: "map_of (set_own k v ps) = (map_of ps)(k \<mapsto> v)"
  by (induction ps) (auto simp: fun_eq_iff)

lemma init_step_child: "has_parent g \<Longrightarrow> init_step st g = st"
  by (simp add: init_step_def split: prod.splits)

lemma init_step_proto:
  "\<not> has_parent g \<Longrightarrow> id_fg g = ''__proto__'' \<Longrightarrow>
   init_step (tops, own, proto) g = (tops @ [g], own, Some [])"
  by (simp add: init_step_def)

lemma init_step_top:
  "\<not> has_parent g \<Longrightarrow> id_fg g \<noteq> ''__proto__'' \<Longrightarrow>
   init_step (tops, own, proto) g = (tops @ [g], set_own (id_fg g) [] own, proto)"
  by (simp add: init_step_def)

lemma proto_is_prototype_name: "''__proto__'' \<in> set Object_prototype_names"
  by (simp add: Object_prototype_names_def)

lemma init_loop:
  "foldl init_step (tops, own, proto) gs = (tops', own', proto') \<Longrightarrow>
   tops' = tops @ filter (\<lambda>g. \<not> has_parent g) gs
   \<and> (\<forall>k. map_of own' k =
         (if k \<in> id_fg ` {g \<in> set gs. \<not> has_parent g \<and> id_fg g \<noteq> ''__proto__''}
          then Some [] else map_of own k))
   \<and> proto' = (if \<exists>g \<in> set gs. \<not> has_parent g \<and> id_fg g = ''__proto__''
                then Some [] else proto)"
proof (induction gs arbitrary: tops own proto)
  case Nil
  then show ?case by auto
next
  case (Cons g gs)
  show ?case
  proof (cases "has_parent g")
    case True
    with Cons.prems have "foldl init_step (tops, own, proto) gs = (tops', own', proto')"
      by (simp add: init_step_child)
    from Cons.IH[OF this] True show ?thesis by auto
  next
    case False
    show ?thesis
    proof (cases "id_fg g = ''__proto__''")
      case True
      with False Cons.prems
      have "foldl init_step (tops @ [g], own, Some []) gs = (tops', own', proto')"
        by (simp add: init_step_proto)
      from Cons.IH[OF this] False True show ?thesis
        by auto
    next
      case np: False
      with False Cons.prems
      have "foldl init_step (tops @ [g], set_own (id_fg g) [] own, proto) gs
          = (tops', own', proto')"
        by (simp add: init_step_top)
      from Cons.IH[OF this] False np show ?thesis
        by (auto simp: map_of_set_own)
    qed
  qed
qed

lemma attach_step_Returns:
  assumes "attach_step (own, proto) g = Returns (own', proto')"
  shows "map_of own' p = map_option (\<lambda>b. b @ children_of p [g]) (map_of own p)"
    and "proto = None \<Longrightarrow> proto' = None"
proof -
  show "proto = None \<Longrightarrow> proto' = None"
    using assms by (auto simp: attach_step_def split: option.splits if_splits)
  show "map_of own' p = map_option (\<lambda>b. b @ children_of p [g]) (map_of own p)"
  proof (cases "has_parent g")
    case False
    with assms have "own' = own"
      by (auto simp: attach_step_def has_parent_def split: option.splits)
    with False show ?thesis
      by (simp add: children_of_def option.map_ident)
  next
    case True
    then obtain q where q: "parentGroup g = Some q" "q \<noteq> []"
      by (auto simp: has_parent_def split: option.splits)
    show ?thesis
    proof (cases "map_of own q")
      case None
      with assms q have "own' = own"
        by (auto simp: attach_step_def split: if_splits option.splits)
      with None q show ?thesis
        by (cases "p = q") (simp_all add: children_of_def option.map_ident)
    next
      case (Some bucket)
      with assms q have "own' = set_own q (bucket @ [g]) own"
        by (auto simp: attach_step_def)
      with Some q True show ?thesis
        by (cases "p = q") (simp_all add: children_of_def option.map_ident map_of_set_own)
    qed
  qed
qed

lemma children_of_Cons: "children_of p (g # gs) = children_of p [g] @ children_of p gs"
  by (simp add: children_of_def)

lemma attach_loop:
  "forEach_state attach_step gs (own, proto) = Returns (own', proto') \<Longrightarrow>
   map_of own' p = map_option (\<lambda>b. b @ children_of p gs) (map_of own p)
   \<and> (proto = None \<longrightarrow> proto' = None)"
proof (induction gs arbitrary: own proto)
  case Nil
  then show ?case by (simp add: children_of_def option.map_ident)
next
  case (Cons g gs)
  from Cons.prems obtain own1 proto1 where s: "attach_step (own, proto) g = Returns (own1, proto1)"
    and r: "forEach_state attach_step gs (own1, proto1) = Returns (own', proto')"
    by (cases "attach_step (own, proto) g") auto
  from attach_step_Returns(1)[OF s, of p] attach_step_Returns(2)[OF s] Cons.IH[OF r] show ?case
    by (simp add: option.map_comp children_of_Cons[of _ g gs] comp_def)
qed

text \<open>While the prototype is \<^verbatim>\<open>Object.prototype\<close>, the second loop returns or raises.\<close>

lemma attach_step_keys:
  "attach_step (own, proto) g = Returns (own', proto') \<Longrightarrow> dom (map_of own') = dom (map_of own)"
  by (auto simp: attach_step_def map_of_set_own split: option.splits if_splits)

lemma attach_step_total:
  assumes "\<forall>p. parentGroup g = Some p \<and> p \<in> set Object_prototype_names \<longrightarrow> p \<in> dom (map_of own)"
  shows "\<exists>own'. attach_step (own, None) g = Returns (own', None)"
  using assms proto_is_prototype_name by (auto simp: attach_step_def split: option.splits)

lemma attach_loop_total:
  "\<forall>g \<in> set gs. \<forall>p. parentGroup g = Some p \<and> p \<in> set Object_prototype_names
      \<longrightarrow> p \<in> dom (map_of own) \<Longrightarrow>
   \<exists>own'. forEach_state attach_step gs (own, None) = Returns (own', None)"
proof (induction gs arbitrary: own)
  case Nil
  then show ?case by simp
next
  case (Cons g gs)
  from Cons.prems obtain own1 where s: "attach_step (own, None) g = Returns (own1, None)"
    using attach_step_total[of g own] by auto
  from attach_step_keys[OF s] Cons.prems
  have "\<forall>g \<in> set gs. \<forall>p. parentGroup g = Some p \<and> p \<in> set Object_prototype_names
      \<longrightarrow> p \<in> dom (map_of own1)"
    by simp
  from Cons.IH[OF this] s show ?case by simp
qed

lemma attach_step_raises:
  assumes "parentGroup g = Some p" and "p \<in> set Object_prototype_names"
    and "p \<notin> dom (map_of own)"
  shows "attach_step (own, None) g = Throws TypeError"
proof -
  from assms(2) have "p \<noteq> []"
    by (auto simp: Object_prototype_names_def)
  with assms show ?thesis
    by (auto simp: attach_step_def split: option.splits)
qed

lemma attach_step_Returns_or_Throws:
  "(\<exists>own'. attach_step (own, None) g = Returns (own', None))
   \<or> attach_step (own, None) g = Throws TypeError"
  by (auto simp: attach_step_def split: option.splits)

lemma attach_loop_raises:
  "\<exists>g \<in> set gs. \<exists>p. parentGroup g = Some p \<and> p \<in> set Object_prototype_names
      \<and> p \<notin> dom (map_of own) \<Longrightarrow>
   forEach_state attach_step gs (own, None) = Throws TypeError"
proof (induction gs arbitrary: own)
  case Nil
  then show ?case by simp
next
  case (Cons g gs)
  from attach_step_Returns_or_Throws[of own g] show ?case
  proof
    assume "attach_step (own, None) g = Throws TypeError"
    then show ?thesis by simp
  next
    assume "\<exists>own'. attach_step (own, None) g = Returns (own', None)"
    then obtain own1 where s: "attach_step (own, None) g = Returns (own1, None)"
      by blast
    have "\<not> (\<exists>p. parentGroup g = Some p \<and> p \<in> set Object_prototype_names
      \<and> p \<notin> dom (map_of own))"
      using s attach_step_raises[of g _ own] by auto
    with Cons.prems attach_step_keys[OF s]
    have "\<exists>g \<in> set gs. \<exists>p. parentGroup g = Some p \<and> p \<in> set Object_prototype_names
      \<and> p \<notin> dom (map_of own1)"
      by auto
    from Cons.IH[OF this] s show ?thesis by simp
  qed
qed

text \<open>The sorts: without NaN every sort returns the stable ascending arrangement.\<close>

lemma sort_by_order_numbers:
  "\<forall>g \<in> set gs. order g \<noteq> NaN \<Longrightarrow>
   sort_by_order gs = Returns (sort_key (\<lambda>g. rank (order g)) gs)"
  by (simp add: sort_by_order_def list_all_iff)

lemma sort_by_order_members:
  "sort_by_order gs = Returns sorted_gs \<Longrightarrow> set sorted_gs = set gs"
  by (auto simp: sort_by_order_def split: if_splits)

lemma sort_buckets_numbers:
  "\<forall>kb \<in> set own. \<forall>g \<in> set (snd kb). order g \<noteq> NaN \<Longrightarrow>
   sort_buckets own = Returns (map (\<lambda>(k, bucket). (k, sort_key (\<lambda>g. rank (order g)) bucket)) own)"
  by (induction own) (auto simp: sort_by_order_numbers)

lemma sort_buckets_members:
  "sort_buckets own = Returns sorted_own \<Longrightarrow> map_of sorted_own k = Some bucket \<Longrightarrow>
   \<exists>b. map_of own k = Some b \<and> set bucket = set b"
proof (induction own arbitrary: sorted_own)
  case Nil
  then show ?case by simp
next
  case (Cons kb own)
  obtain k0 b0 where kb: "kb = (k0, b0)" by (cases kb)
  from Cons.prems(1) kb obtain s0 rest where s0: "sort_by_order b0 = Returns s0"
    and rest: "sort_buckets own = Returns rest" and so: "sorted_own = (k0, s0) # rest"
    by (cases "sort_by_order b0"; cases "sort_buckets own") auto
  show ?case
  proof (cases "k = k0")
    case True
    with Cons.prems(2) so kb sort_by_order_members[OF s0] show ?thesis by auto
  next
    case False
    with Cons.prems(2) so have "map_of rest k = Some bucket" by simp
    from Cons.IH[OF rest this] False kb show ?thesis by auto
  qed
qed

lemma map_of_sorted_buckets:
  "map_of (map (\<lambda>(k, bucket). (k, f bucket)) own) p = map_option f (map_of own p)"
  by (induction own) auto

text \<open>Every bucket holds groups of the working set only.\<close>

lemma set_own_subset: "set (set_own k v ps) \<subseteq> insert (k, v) (set ps)"
  by (induction ps) auto

lemma init_loop_buckets:
  "foldl init_step (tops, own, proto) gs = (tops', own', proto') \<Longrightarrow>
   \<forall>kb \<in> set own. set (snd kb) \<subseteq> S \<Longrightarrow> \<forall>kb \<in> set own'. set (snd kb) \<subseteq> S"
proof (induction gs arbitrary: tops own proto)
  case Nil
  then show ?case by simp
next
  case (Cons g gs)
  obtain tops1 own1 proto1 where s: "init_step (tops, own, proto) g = (tops1, own1, proto1)"
    by (cases "init_step (tops, own, proto) g") auto
  have "set own1 \<subseteq> insert (id_fg g, []) (set own)"
    using s set_own_subset[of "id_fg g" "[]" own]
    by (auto simp: init_step_def split: if_splits)
  with Cons.prems(2) have "\<forall>kb \<in> set own1. set (snd kb) \<subseteq> S"
    by fastforce
  moreover from Cons.prems(1) s have "foldl init_step (tops1, own1, proto1) gs = (tops', own', proto')"
    by simp
  ultimately show ?case
    by (rule Cons.IH[rotated])
qed

lemma attach_step_buckets:
  assumes "attach_step (own, proto) g = Returns (own', proto')" and "g \<in> S"
    and "\<forall>kb \<in> set own. set (snd kb) \<subseteq> S"
  shows "\<forall>kb \<in> set own'. set (snd kb) \<subseteq> S"
proof (cases "own' = own")
  case True
  with assms(3) show ?thesis by simp
next
  case False
  with assms(1) obtain p bucket where p: "map_of own p = Some bucket"
    and o: "own' = set_own p (bucket @ [g]) own"
    by (auto simp: attach_step_def split: option.splits if_splits)
  from p have "(p, bucket) \<in> set own"
    by (rule map_of_SomeD)
  with assms(3) have "set (snd (p, bucket)) \<subseteq> S"
    by (rule bspec)
  with assms(2) have "set (bucket @ [g]) \<subseteq> S"
    by simp
  with assms(3) o set_own_subset[of p "bucket @ [g]" own] show ?thesis
    by fastforce
qed

lemma attach_loop_buckets:
  "forEach_state attach_step gs (own, proto) = Returns (own', proto') \<Longrightarrow> set gs \<subseteq> S \<Longrightarrow>
   \<forall>kb \<in> set own. set (snd kb) \<subseteq> S \<Longrightarrow> \<forall>kb \<in> set own'. set (snd kb) \<subseteq> S"
proof (induction gs arbitrary: own proto)
  case Nil
  then show ?case by simp
next
  case (Cons g gs)
  from Cons.prems(1) obtain own1 proto1 where s: "attach_step (own, proto) g = Returns (own1, proto1)"
    and r: "forEach_state attach_step gs (own1, proto1) = Returns (own', proto')"
    by (cases "attach_step (own, proto) g") auto
  from Cons.prems(2) have "g \<in> S" "set gs \<subseteq> S" by auto
  from Cons.IH[OF r this(2) attach_step_buckets[OF s this(1) Cons.prems(3)]]
  show ?case .
qed

text \<open>
  The array in the place of the prototype holds groups that name \<^verbatim>\<open>__proto__\<close> as their
  parent.
\<close>

lemma attach_step_prototype:
  assumes "attach_step (own, proto) g = Returns (own', proto')"
    and "\<forall>elements. proto = Some elements \<longrightarrow> (\<forall>x \<in> set elements. parentGroup x = Some ''__proto__'')"
  shows "\<forall>elements. proto' = Some elements \<longrightarrow> (\<forall>x \<in> set elements. parentGroup x = Some ''__proto__'')"
  using assms by (auto simp: attach_step_def split: option.splits if_splits)

lemma attach_loop_prototype:
  "forEach_state attach_step gs (own, proto) = Returns (own', proto') \<Longrightarrow>
   \<forall>elements. proto = Some elements \<longrightarrow> (\<forall>x \<in> set elements. parentGroup x = Some ''__proto__'') \<Longrightarrow>
   \<forall>elements. proto' = Some elements \<longrightarrow> (\<forall>x \<in> set elements. parentGroup x = Some ''__proto__'')"
proof (induction gs arbitrary: own proto)
  case Nil
  then show ?case by simp
next
  case (Cons g gs)
  from Cons.prems(1) obtain own1 proto1 where s: "attach_step (own, proto) g = Returns (own1, proto1)"
    and r: "forEach_state attach_step gs (own1, proto1) = Returns (own', proto')"
    by (cases "attach_step (own, proto) g") auto
  from Cons.IH[OF r attach_step_prototype[OF s Cons.prems(2)]] show ?case .
qed

text \<open>
  The builder on a working set without NaN orders and without a parentless group of id
  \<^verbatim>\<open>__proto__\<close>: it raises when a group names an inherited member as its parent, and
  otherwise returns the sorted top-level groups and, for each of them, the sorted bucket
  of its children.
\<close>

lemma top_level_ids:
  "set (map id_fg (filter (\<lambda>t. \<not> has_parent t) gs)) = id_fg ` {g \<in> set gs. \<not> has_parent g}"
  by auto

lemma buildGroupHierarchy_characterised:
  assumes "\<forall>g \<in> set (allGroups flatGroups dynamicGroups). order g \<noteq> NaN"
    and "\<forall>g \<in> set (allGroups flatGroups dynamicGroups).
           \<not> has_parent g \<longrightarrow> id_fg g \<noteq> ''__proto__''"
  shows "buildGroupHierarchy flatGroups dynamicGroups =
     (if \<exists>g \<in> set (allGroups flatGroups dynamicGroups).
            names_inherited_member (allGroups flatGroups dynamicGroups) g
      then Throws TypeError
      else Returns
        \<lparr>topLevel = sort_key (\<lambda>g. rank (order g))
            (filter (\<lambda>g. \<not> has_parent g) (allGroups flatGroups dynamicGroups)),
         hierarchy = (\<lambda>p.
            if p \<in> id_fg ` {g \<in> set (allGroups flatGroups dynamicGroups). \<not> has_parent g}
            then Some (sort_key (\<lambda>g. rank (order g))
                   (children_of p (allGroups flatGroups dynamicGroups)))
            else None),
         hierarchy_prototype = None\<rparr>)"
proof -
  define gs where "gs = allGroups flatGroups dynamicGroups"
  define ids where "ids = id_fg ` {g \<in> set gs. \<not> has_parent g}"
  obtain tops own0 proto0 where f: "foldl init_step ([], [], None) gs = (tops, own0, proto0)"
    by (cases "foldl init_step ([], [], None) gs") auto
  from init_loop[OF f] assms(2)
  have tops: "tops = filter (\<lambda>g. \<not> has_parent g) gs"
    and own0: "\<And>k. map_of own0 k = (if k \<in> ids then Some [] else None)"
    and proto0: "proto0 = None"
    by (auto simp: gs_def ids_def)
  from own0 have dom0: "dom (map_of own0) = ids"
    by (auto simp: dom_def)
  have b0: "\<forall>kb \<in> set own0. set (snd kb) \<subseteq> set gs"
    using init_loop_buckets[OF f, of "set gs"] by simp
  have unfold: "buildGroupHierarchy flatGroups dynamicGroups =
      bind_outcome (forEach_state attach_step gs (own0, None))
        (\<lambda>(own, proto).
          bind_outcome (sort_by_order tops) (\<lambda>sorted_tops.
          bind_outcome (sort_buckets own) (\<lambda>sorted_own.
            Returns \<lparr>topLevel = sorted_tops, hierarchy = map_of sorted_own,
                     hierarchy_prototype = proto\<rparr>)))"
    using f proto0 by (simp add: buildGroupHierarchy_def gs_def)
  show ?thesis
  proof (cases "\<exists>g \<in> set gs. names_inherited_member gs g")
    case True
    then have "\<exists>g \<in> set gs. \<exists>p. parentGroup g = Some p \<and> p \<in> set Object_prototype_names
        \<and> p \<notin> dom (map_of own0)"
      by (auto simp: names_inherited_member_def dom0 ids_def split: option.splits)
    from attach_loop_raises[OF this] True show ?thesis
      unfolding gs_def[symmetric] by (simp add: unfold)
  next
    case False
    then have "\<forall>g \<in> set gs. \<forall>p. parentGroup g = Some p \<and> p \<in> set Object_prototype_names
        \<longrightarrow> p \<in> dom (map_of own0)"
      by (auto simp: names_inherited_member_def dom0 ids_def split: option.splits)
    from attach_loop_total[OF this] obtain own1
      where a: "forEach_state attach_step gs (own0, None) = Returns (own1, None)"
      by blast
    from attach_loop[OF a]
    have own1: "\<And>p. map_of own1 p = map_option (\<lambda>b. b @ children_of p gs) (map_of own0 p)"
      by simp
    have "\<forall>kb \<in> set own1. set (snd kb) \<subseteq> set gs"
      using attach_loop_buckets[OF a _ b0] by simp
    with assms(1) have "\<forall>kb \<in> set own1. \<forall>g \<in> set (snd kb). order g \<noteq> NaN"
      unfolding gs_def[symmetric] by blast
    from sort_buckets_numbers[OF this]
    have sb: "sort_buckets own1
        = Returns (map (\<lambda>(k, bucket). (k, sort_key (\<lambda>g. rank (order g)) bucket)) own1)" .
    from assms(1) have "\<forall>g \<in> set tops. order g \<noteq> NaN"
      by (simp add: tops gs_def)
    from sort_by_order_numbers[OF this]
    have st: "sort_by_order tops = Returns (sort_key (\<lambda>g. rank (order g)) tops)" .
    have h: "map_of (map (\<lambda>(k, bucket). (k, sort_key (\<lambda>g. rank (order g)) bucket)) own1)
        = (\<lambda>p. if p \<in> ids then Some (sort_key (\<lambda>g. rank (order g)) (children_of p gs)) else None)"
      by (rule ext) (simp add: map_of_sorted_buckets own1 own0)
    from False show ?thesis
      unfolding gs_def[symmetric] ids_def[symmetric]
      by (simp add: unfold a st[unfolded tops] sb h tops)
  qed
qed

lemma buildGroupHierarchy_total:
  assumes "\<forall>g \<in> set (allGroups flatGroups dynamicGroups). order g \<noteq> NaN"
    and "\<forall>g \<in> set (allGroups flatGroups dynamicGroups).
      \<not> has_parent g \<longrightarrow> id_fg g \<noteq> ''__proto__''"
    and "\<forall>g \<in> set (allGroups flatGroups dynamicGroups). \<forall>p.
      parentGroup g = Some p \<and> p \<in> set Object_prototype_names
        \<longrightarrow> p \<in> id_fg ` {g \<in> set (allGroups flatGroups dynamicGroups). \<not> has_parent g}"
  shows "\<exists>r. buildGroupHierarchy flatGroups dynamicGroups = Returns r"
proof -
  from assms(3) have "\<not> (\<exists>g \<in> set (allGroups flatGroups dynamicGroups).
            names_inherited_member (allGroups flatGroups dynamicGroups) g)"
    by (auto simp: names_inherited_member_def split: option.splits)
  then show ?thesis
    by (simp add: buildGroupHierarchy_characterised[OF assms(1,2)])
qed

text \<open>
  Whenever the builder returns, a group that names a parent other than the id of a
  parentless group is nowhere in the result.
\<close>

lemma orphan_not_in_hierarchy:
  assumes "buildGroupHierarchy flatGroups dynamicGroups = Returns r"
    and "parentGroup g = Some p" and "p \<noteq> []"
    and "p \<notin> id_fg ` {g \<in> set (allGroups flatGroups dynamicGroups). \<not> has_parent g}"
  shows "g \<notin> set (topLevel r)
    \<and> (\<forall>q bucket. hierarchy r q = Some bucket \<longrightarrow> g \<notin> set bucket)
    \<and> (\<forall>elements. hierarchy_prototype r = Some elements \<longrightarrow> g \<notin> set elements)"
proof -
  define gs where "gs = allGroups flatGroups dynamicGroups"
  obtain tops own0 proto0 where f: "foldl init_step ([], [], None) gs = (tops, own0, proto0)"
    by (cases "foldl init_step ([], [], None) gs") auto
  note i = init_loop[OF f]
  from assms(1) f obtain own1 proto1 where a: "forEach_state attach_step gs (own0, proto0) = Returns (own1, proto1)"
    by (cases "forEach_state attach_step gs (own0, proto0)")
       (auto simp: buildGroupHierarchy_def gs_def)
  from assms(1) f a obtain sorted_tops where st: "sort_by_order tops = Returns sorted_tops"
    by (cases "sort_by_order tops") (auto simp: buildGroupHierarchy_def gs_def)
  from assms(1) f a st obtain sorted_own where sb: "sort_buckets own1 = Returns sorted_own"
    by (cases "sort_buckets own1") (auto simp: buildGroupHierarchy_def gs_def)
  from assms(1) f a st sb
  have r: "r = \<lparr>topLevel = sorted_tops, hierarchy = map_of sorted_own,
                hierarchy_prototype = proto1\<rparr>"
    by (simp add: buildGroupHierarchy_def gs_def)
  from assms(2,3) have hp: "has_parent g"
    by (simp add: has_parent_def)
  from i have "set tops = {g \<in> set gs. \<not> has_parent g}"
    by auto
  with hp sort_by_order_members[OF st] r have 1: "g \<notin> set (topLevel r)"
    by auto
  have 2: "g \<notin> set bucket" if "hierarchy r q = Some bucket" for q bucket
  proof
    assume g: "g \<in> set bucket"
    from that r have "map_of sorted_own q = Some bucket" by simp
    from sort_buckets_members[OF sb this] obtain b
      where b: "map_of own1 q = Some b" "set bucket = set b"
      by blast
    from attach_loop[OF a, of q] b(1) obtain b0 where b0: "map_of own0 q = Some b0"
      "b = b0 @ children_of q gs"
      by (cases "map_of own0 q") auto
    from i b0(1) have "q \<in> id_fg ` {g \<in> set gs. \<not> has_parent g}" "b0 = []"
      by (auto split: if_splits)
    with g b(2) b0(2) assms(2,4) show False
      by (auto simp: children_of_def gs_def)
  qed
  have 3: "g \<notin> set elements" if "hierarchy_prototype r = Some elements" for elements
  proof
    assume g: "g \<in> set elements"
    from that r have p1: "proto1 = Some elements" by simp
    from attach_loop[OF a, of q] p1 have "proto0 \<noteq> None" for q
      by auto
    with i have e: "\<exists>g \<in> set gs. \<not> has_parent g \<and> id_fg g = ''__proto__''" and "proto0 = Some []"
      by (auto split: if_splits)
    then have "\<forall>elements. proto0 = Some elements \<longrightarrow> (\<forall>x \<in> set elements. parentGroup x = Some ''__proto__'')"
      by simp
    from attach_loop_prototype[OF a this] p1 g have "parentGroup g = Some ''__proto__''"
      by auto
    with assms(2,4) e show False
      unfolding gs_def by (fastforce simp: image_iff)
  qed
  from 1 2 3 show ?thesis by blast
qed

section \<open>Facts about upper-casing and the walk along a path\<close>

lemma upper_char_not_lower: "upper_char c \<notin> set lower_letters"
  by (auto simp: upper_char_def lower_letters_def)

lemma toUpperCase_no_lower: "set (toUpperCase s) \<inter> set lower_letters = {}"
  using upper_char_not_lower by (auto simp: toUpperCase_def)

lemma prototype_names_have_lower:
  "n \<in> set Object_prototype_names \<Longrightarrow> set n \<inter> set lower_letters \<noteq> {}"
  by (auto simp: Object_prototype_names_def lower_letters_def)

lemma toUpperCase_not_prototype_name: "toUpperCase s \<notin> set Object_prototype_names"
  using toUpperCase_no_lower[of s] prototype_names_have_lower[of "toUpperCase s"] by blast

lemma toUpperCase_not_default: "toUpperCase s \<noteq> ''default''"
proof
  assume "toUpperCase s = ''default''"
  then have "CHR ''d'' \<in> set (toUpperCase s)" by simp
  with toUpperCase_no_lower[of s] show False
    by (auto simp: lower_letters_def)
qed

lemma get_member_truthy_not_Throws: "truthy v \<Longrightarrow> get_member v k \<noteq> Throws e"
  by (cases "(v, k)" rule: get_member.cases)
     (auto split: property.splits)

lemma nested_step_not_Throws: "acc \<noteq> Throws e \<Longrightarrow> nested_step acc k \<noteq> Throws e"
proof (cases acc)
  case (Returns current)
  show ?thesis
  proof (cases "truthy current")
    case True
    from get_member_truthy_not_Throws[OF this, of k e] Returns True show ?thesis
      by (cases "get_member current k") (auto simp: nested_step_def)
  next
    case False
    with Returns show ?thesis by (simp add: nested_step_def)
  qed
qed (auto simp: nested_step_def)

lemma foldl_nested_not_Throws: "acc \<noteq> Throws e \<Longrightarrow> foldl nested_step acc ks \<noteq> Throws e"
  by (induction ks arbitrary: acc) (auto dest: nested_step_not_Throws)

lemma getNestedValue_not_Throws: "getNestedValue obj path \<noteq> Throws e"
  by (simp add: getNestedValue_def foldl_nested_not_Throws)

lemma foldl_nested_Undefined: "foldl nested_step (Returns Undefined) ks = Returns Undefined"
  by (induction ks) (auto simp: nested_step_def)

lemma getNestedValue_Undefined: "getNestedValue Undefined path = Returns Undefined"
  by (simp add: getNestedValue_def foldl_nested_Undefined)

lemma getNestedValue_missing_first:
  assumes "split_dot path = k # ks" and "map_of doc k = None"
    and "k \<notin> set Object_prototype_names"
  shows "getNestedValue (Json (JObj doc)) path = Returns Undefined"
  using assms
  by (simp add: getNestedValue_def nested_step_def read_property_missing foldl_nested_Undefined)

lemma read_property_case:
  "(case read_property obj k of Own v \<Rightarrow> f v | FromPrototype n \<Rightarrow> g n | Missing \<Rightarrow> h)
   = (case map_of obj k of
        Some v \<Rightarrow> f v
      | None \<Rightarrow> if k \<in> set Object_prototype_names then g k else h)"
  by (simp add: read_property_def lookup_property_def split: option.splits)

lemma getFieldOptions_state:
  assumes "options fieldConfig = None"
    and "stateSpecificOptions fieldConfig = Some sso"
    and "dependsOnStateFrom fieldConfig = Some path" and "path \<noteq> []"
  shows "getFieldOptions fieldConfig auditData =
     bind_outcome (getNestedValue auditData path) (\<lambda>stateFieldValue.
     bind_outcome (optional_toUpperCase stateFieldValue) (\<lambda>stateCode.
       (case stateCode of
          None \<Rightarrow> Returns (default_options sso)
        | Some code \<Rightarrow>
            if code = [] then Returns (default_options sso)
            else
              (case read_property (by_state sso) code of
                 Own opts \<Rightarrow> Returns opts
               | FromPrototype n \<Rightarrow> Unmodelled
               | Missing \<Rightarrow> Returns (default_options sso)))))"
  using assms by (simp add: getFieldOptions_def)

lemma getFieldOptions_string:
  assumes "options fieldConfig = None"
    and "stateSpecificOptions fieldConfig = Some sso"
    and "dependsOnStateFrom fieldConfig = Some path" and "path \<noteq> []"
    and "getNestedValue auditData path = Returns (Json (JStr s))"
  shows "getFieldOptions fieldConfig auditData =
     (if toUpperCase s = [] then Returns (default_options sso)
      else case map_of (by_state sso) (toUpperCase s) of
             Some opts \<Rightarrow> Returns opts
           | None \<Rightarrow> Returns (default_options sso))"
  using assms(5) toUpperCase_not_prototype_name[of s]
  by (simp add: getFieldOptions_state[OF assms(1-4)] read_property_case
      cong: if_cong split: option.splits)

lemma getFieldOptions_absent:
  assumes "options fieldConfig = None"
    and "stateSpecificOptions fieldConfig = Some sso"
    and "dependsOnStateFrom fieldConfig = Some path" and "path \<noteq> []"
    and "getNestedValue auditData path = Returns Undefined
       \<or> getNestedValue auditData path = Returns (Json JNull)"
  shows "getFieldOptions fieldConfig auditData = Returns (default_options sso)"
  using assms(5) by (auto simp: getFieldOptions_state[OF assms(1-4)])

lemma getFieldOptions_other:
  assumes "options fieldConfig = None"
    and "stateSpecificOptions fieldConfig = Some sso"
    and "dependsOnStateFrom fieldConfig = Some path" and "path \<noteq> []"
    and "getNestedValue auditData path = Returns v"
    and "v \<noteq> Undefined" "v \<noteq> Json JNull" "\<forall>s. v \<noteq> Json (JStr s)"
  shows "getFieldOptions fieldConfig auditData = Throws TypeError"
proof -
  from assms(6-8) have "optional_toUpperCase v = Throws TypeError"
    by (cases v rule: optional_toUpperCase.cases) auto
  with assms(5) show ?thesis
    by (simp add: getFieldOptions_state[OF assms(1-4)])
qed

lemma getFieldOptions_no_state:
  assumes "options fieldConfig \<noteq> None \<or> stateSpecificOptions fieldConfig = None
     \<or> dependsOnStateFrom fieldConfig = None \<or> dependsOnStateFrom fieldConfig = Some []"
  shows "getFieldOptions fieldConfig auditData
     = Returns (case options fieldConfig of Some opts \<Rightarrow> opts | None \<Rightarrow> [])"
  using assms by (auto simp: getFieldOptions_def split: option.splits)

section \<open>Facts about the entries of the source registry\<close>

lemmas entries_defs = client_entries_def household_member_entries_def home_entries_def
  additional_interest_entries_def home_insurance_entries_def vehicle_entries_def
  auto_insurance_entries_def

lemma has_source_entries_keys:
  "has_source_entries reg \<Longrightarrow> map fst reg = map fst source_entries"
proof -
  assume "has_source_entries reg"
  then have "map fst (map (\<lambda>(k, config). (k, group_fc config)) reg)
      = map fst (map (\<lambda>(k, g). (k, Some g)) source_entries)"
    by (simp only: has_source_entries_def)
  then show ?thesis
    by (simp add: comp_def case_prod_unfold)
qed

lemma has_source_entries_own:
  assumes "has_source_entries reg"
  shows "(map_of reg k = None) = (map_of source_entries k = None)"
proof -
  have "(map_of reg k = None) = (k \<notin> set (map fst reg))"
    by (simp add: map_of_eq_None_iff)
  also have "\<dots> = (k \<notin> set (map fst source_entries))"
    by (simp only: has_source_entries_keys[OF assms])
  also have "\<dots> = (map_of source_entries k = None)"
    by (simp add: map_of_eq_None_iff)
  finally show ?thesis .
qed

lemma has_source_entries_first_template:
  assumes "has_source_entries reg"
  shows "\<exists>earlier config later.
      reg = earlier @ (''client.household_members[*].first_name'', config) # later
    \<and> map fst earlier = map fst client_entries
    \<and> group_fc config = Some ''household_member_template''"
proof -
  let ?f = "\<lambda>(k, config). (k, group_fc config)"
  let ?F = "\<lambda>(k, g). (k, Some g)"
  obtain tail where hm: "household_member_entries
      = (''client.household_members[*].first_name'', ''household_member_template'') # tail"
    by (simp add: household_member_entries_def)
  define others where "others = tail @ home_entries @ additional_interest_entries
     @ home_insurance_entries @ vehicle_entries @ auto_insurance_entries"
  have se: "source_entries = client_entries
      @ (''client.household_members[*].first_name'', ''household_member_template'') # others"
    by (simp add: source_entries_def hm others_def)
  from assms have "map ?f reg = map ?F source_entries"
    by (simp only: has_source_entries_def)
  also have "\<dots> = map ?F client_entries
      @ (''client.household_members[*].first_name'', Some ''household_member_template'')
      # map ?F others"
    by (subst se) simp
  finally have "map ?f reg = map ?F client_entries
      @ (''client.household_members[*].first_name'', Some ''household_member_template'')
      # map ?F others" .
  then obtain earlier rest where r: "reg = earlier @ rest"
    and e: "map ?f earlier = map ?F client_entries"
    and t: "map ?f rest = (''client.household_members[*].first_name'', Some ''household_member_template'')
      # map ?F others"
    by (auto simp: map_eq_append_conv)
  from t obtain x later where x: "rest = x # later"
    and fx: "?f x = (''client.household_members[*].first_name'', Some ''household_member_template'')"
    by (auto simp: map_eq_Cons_conv)
  from fx obtain config where c: "x = (''client.household_members[*].first_name'', config)"
    "group_fc config = Some ''household_member_template''"
    by (cases x) auto
  from e have "map fst (map ?f earlier) = map fst (map ?F client_entries)"
    by simp
  then have "map fst earlier = map fst client_entries"
    by (simp add: comp_def case_prod_unfold)
  with r x c show ?thesis by blast
qed

lemma client_entries_no_template:
  "list_all (\<lambda>(k, g). \<not> includes_str k ''[*]'') client_entries"
  by (simp add: client_entries_def)

lemma client_keys_passed_over:
  assumes "map fst earlier = map fst client_entries"
  shows "\<forall>(tk, c) \<in> set earlier. passed_over tk dataFieldKey"
proof -
  from client_entries_no_template have "\<forall>k \<in> set (map fst client_entries). \<not> includes_str k ''[*]''"
    by (auto simp: list_all_iff)
  with assms have "\<forall>k \<in> set (map fst earlier). \<not> includes_str k ''[*]''"
    by simp
  then show ?thesis
    by (auto simp: passed_over_def)
qed

lemma map_of_source_entries_None:
  "(map_of source_entries k = None) =
   (map_of client_entries k = None \<and> map_of household_member_entries k = None
    \<and> map_of home_entries k = None \<and> map_of additional_interest_entries k = None
    \<and> map_of home_insurance_entries k = None \<and> map_of vehicle_entries k = None
    \<and> map_of auto_insurance_entries k = None)"
  by (auto simp: source_entries_def)

lemma list_all_source_entries:
  "list_all P source_entries =
   (list_all P client_entries \<and> list_all P household_member_entries
    \<and> list_all P home_entries \<and> list_all P additional_interest_entries
    \<and> list_all P home_insurance_entries \<and> list_all P vehicle_entries
    \<and> list_all P auto_insurance_entries)"
  by (simp add: source_entries_def)

text \<open>No key of the source holds a concrete index: every bracket is \<^verbatim>\<open>[*]\<close>.\<close>

lemma client_entries_no_index:
  "list_all (\<lambda>(k, g). first_bracketed k = None) client_entries"
  by (simp add: client_entries_def bracketed_def is_digit_def)

lemma household_member_entries_no_index:
  "list_all (\<lambda>(k, g). first_bracketed k = None) household_member_entries"
  by (simp add: household_member_entries_def bracketed_def is_digit_def)

lemma home_entries_no_index:
  "list_all (\<lambda>(k, g). first_bracketed k = None) home_entries"
  by (simp add: home_entries_def bracketed_def is_digit_def)

lemma additional_interest_entries_no_index:
  "list_all (\<lambda>(k, g). first_bracketed k = None) additional_interest_entries"
  by (simp add: additional_interest_entries_def bracketed_def is_digit_def)

lemma home_insurance_entries_no_index:
  "list_all (\<lambda>(k, g). first_bracketed k = None) home_insurance_entries"
  by (simp add: home_insurance_entries_def bracketed_def is_digit_def)

lemma vehicle_entries_no_index:
  "list_all (\<lambda>(k, g). first_bracketed k = None) vehicle_entries"
  by (simp add: vehicle_entries_def bracketed_def is_digit_def)

lemma auto_insurance_entries_no_index:
  "list_all (\<lambda>(k, g). first_bracketed k = None) auto_insurance_entries"
  by (simp add: auto_insurance_entries_def bracketed_def is_digit_def)

lemma source_entries_no_index:
  "list_all (\<lambda>(k, g). first_bracketed k = None) source_entries"
  by (simp only: list_all_source_entries client_entries_no_index
      household_member_entries_no_index home_entries_no_index
      additional_interest_entries_no_index home_insurance_entries_no_index
      vehicle_entries_no_index auto_insurance_entries_no_index simp_thms)

lemma key_with_index_not_own:
  assumes "first_bracketed k \<noteq> None"
  shows "map_of source_entries k = None"
proof -
  from source_entries_no_index have "\<forall>x \<in> set source_entries. first_bracketed (fst x) = None"
    by (auto simp: list_all_iff)
  with assms have "k \<notin> fst ` set source_entries"
    by auto
  then show ?thesis
    by (simp add: map_of_eq_None_iff)
qed

text \<open>
  Every template key of the source is in the fragment of pattern text the matcher
  covers, and the other keys have no \<^verbatim>\<open>[*]\<close>.
\<close>

lemma household_member_entries_compile:
  "list_all (\<lambda>(k, g). includes_str k ''[*]'' \<and> template_regex k \<noteq> None) household_member_entries"
  by code_simp

lemma home_entries_no_template:
  "list_all (\<lambda>(k, g). \<not> includes_str k ''[*]'') home_entries"
  by (simp add: home_entries_def)

lemma additional_interest_entries_compile:
  "list_all (\<lambda>(k, g). includes_str k ''[*]'' \<and> template_regex k \<noteq> None) additional_interest_entries"
  by code_simp

lemma home_insurance_entries_no_template:
  "list_all (\<lambda>(k, g). \<not> includes_str k ''[*]'') home_insurance_entries"
  by (simp add: home_insurance_entries_def)

lemma vehicle_entries_compile:
  "list_all (\<lambda>(k, g). includes_str k ''[*]'' \<and> template_regex k \<noteq> None) vehicle_entries"
  by code_simp

lemma auto_insurance_entries_no_template:
  "list_all (\<lambda>(k, g). \<not> includes_str k ''[*]'') auto_insurance_entries"
  by (simp add: auto_insurance_entries_def)

lemma source_templates_compile:
  "list_all (\<lambda>(k, g). includes_str k ''[*]'' \<longrightarrow> template_regex k \<noteq> None) source_entries"
proof -
  have a: "list_all (\<lambda>(k, g). includes_str k ''[*]'' \<longrightarrow> template_regex k \<noteq> None) es"
    if "list_all (\<lambda>(k, g). \<not> includes_str k ''[*]'') es" for es :: "(string \<times> string) list"
    using that by (auto simp: list_all_iff)
  have b: "list_all (\<lambda>(k, g). includes_str k ''[*]'' \<longrightarrow> template_regex k \<noteq> None) es"
    if "list_all (\<lambda>(k, g). includes_str k ''[*]'' \<and> template_regex k \<noteq> None) es"
    for es :: "(string \<times> string) list"
    using that by (auto simp: list_all_iff)
  show ?thesis
    by (simp only: list_all_source_entries a[OF client_entries_no_template]
        b[OF household_member_entries_compile] a[OF home_entries_no_template]
        b[OF additional_interest_entries_compile] a[OF home_insurance_entries_no_template]
        b[OF vehicle_entries_compile] a[OF auto_insurance_entries_no_template] simp_thms)
qed

lemma has_source_entries_bare: "has_source_entries bare_registry"
  by (simp add: has_source_entries_def bare_registry_def comp_def case_prod_unfold)

text \<open>\<^verbatim>\<open>constructor\<close> is no key of the source registry.\<close>

lemma source_registry_lacks_constructor:
  assumes "has_source_entries FIELD_CONFIGURATIONS"
  shows "map_of FIELD_CONFIGURATIONS ''constructor'' = None"
proof -
  have "map_of source_entries ''constructor'' = None"
    unfolding map_of_source_entries_None
    by (intro conjI) (simp_all add: entries_defs)
  then show ?thesis
    by (simp only: has_source_entries_own[OF assms])
qed

lemma household_member_key_matched:
  "matched ''client.household_members[*].first_name'' (household_member_key i)"
  using bracketed_show_nat[of i "''.first_name''"]
  by (simp add: matched_def placeholder_rest_def bracketed_def regex_syntax_chars_def
      is_line_terminator_def household_member_key_def)

lemma household_member_key_index:
  "first_bracketed (household_member_key i) = Some (show_nat i)"
  using bracketed_show_nat[of i "''.first_name''"]
  by (simp add: household_member_key_def bracketed_def)

text \<open>
  The template round trip on the source registry: the first name of the household member
  at any index \<open>i\<close> up to \<open>2^53 - 1\<close> resolves to the template definition with the
  concrete key and the group \<^verbatim>\<open>household_member_<i>\<close>.
\<close>

lemma template_round_trip:
  assumes "has_source_entries FIELD_CONFIGURATIONS" and "i \<le> max_safe_integer"
  shows "\<exists>config.
      (''client.household_members[*].first_name'', config) \<in> set FIELD_CONFIGURATIONS
    \<and> getFieldConfigForDataField FIELD_CONFIGURATIONS (household_member_key i)
        = Returns (Definition
            (config\<lparr>key := household_member_key i,
                    group_fc := Some (''household_member_'' @ show_nat i)\<rparr>))"
proof -
  from has_source_entries_first_template[OF assms(1)] obtain earlier config later
    where reg: "FIELD_CONFIGURATIONS
        = earlier @ (''client.household_members[*].first_name'', config) # later"
      and e: "map fst earlier = map fst client_entries"
      and g: "group_fc config = Some ''household_member_template''"
    by blast
  have z: "first_bracketed (household_member_key i) \<noteq> None"
    by (simp add: household_member_key_index)
  have own: "map_of FIELD_CONFIGURATIONS (household_member_key i) = None"
    by (simp only: has_source_entries_own[OF assms(1)] key_with_index_not_own[OF z])
  have b: "bracket_index (household_member_key i) = i"
    by (simp add: bracket_index_def household_member_key_index parseInt_show_nat)
  have "\<not> includes_str (''household_member'' @ ''_templat'') ''_template''"
    by simp
  from dynamic_group_first[OF this, of "[]" "show_nat i"]
  have s: "dynamic_group (Some ''household_member_template'') (show_nat i)
      = Some (''household_member_'' @ show_nat i)"
    by simp
  have "getFieldConfigForDataField FIELD_CONFIGURATIONS (household_member_key i)
        = Returns (Definition
            (config\<lparr>key := household_member_key i,
                    group_fc := Some (''household_member_'' @ show_nat i)\<rparr>))"
    using resolve_first_match[OF own reg client_keys_passed_over[OF e]
        household_member_key_matched] assms(2)
    by (simp add: b g s)
  with reg show ?thesis
    by auto
qed

section \<open>Claims about the Template Resolver\<close>

lemmas resolver_eval =
  getFieldConfigForDataField_def read_property_def lookup_property_def
  Object_prototype_names_def bracketed_def placeholder_rest_def regex_syntax_chars_def
  is_line_terminator_def is_digit_def index_text_def max_safe_integer_def parseInt_def
  digit_value_def digit_char_def show_nat.simps dynamic_group_def bracket_index_def
  matched_def passed_over_def

text \<open>
  Claim C1, as the code has it. Let the data field key have no exact entry in the
  registry, and let \<open>templateKey\<close> be the first registry key, in enumeration order, that
  matches it. Then the resolver returns a copy of that template's definition whose
  \<open>key\<close> is the data field key and whose other fields, the group apart, are those of
  the template. The key holds a bracketed integer, and with \<open>index\<close> the first of them
  (at most \<open>2^53 - 1\<close>): a group id in which \<^verbatim>\<open>_template\<close> does not occur is left
  unchanged; otherwise the first occurrence of \<^verbatim>\<open>_template\<close>, wherever it stands in
  the id, is replaced by \<^verbatim>\<open>_<index>\<close>; an absent group stays absent.
\<close>

theorem template_match_rewrites_first_occurrence:
  assumes "map_of FIELD_CONFIGURATIONS dataFieldKey = None"
    and "FIELD_CONFIGURATIONS = earlier @ (templateKey, config) # later"
    and "\<forall>(tk, c) \<in> set earlier. passed_over tk dataFieldKey"
    and "matched templateKey dataFieldKey"
    and "bracket_index dataFieldKey \<le> max_safe_integer"
  shows "\<exists>result ds.
      getFieldConfigForDataField FIELD_CONFIGURATIONS dataFieldKey = Returns (Definition result)
    \<and> result = config\<lparr>key := dataFieldKey, group_fc := group_fc result\<rparr>
    \<and> key result = dataFieldKey
    \<and> first_bracketed dataFieldKey = Some ds
    \<and> (group_fc config = None \<longrightarrow> group_fc result = None)
    \<and> (\<forall>g. group_fc config = Some g \<and> \<not> includes_str g ''_template''
          \<longrightarrow> group_fc result = Some g)
    \<and> (\<forall>a b. group_fc config = Some (a @ ''_template'' @ b)
            \<and> \<not> includes_str (a @ ''_templat'') ''_template''
          \<longrightarrow> group_fc result = Some (a @ ''_'' @ show_nat (parseInt ds) @ b))"
proof -
  from matched_has_index[OF assms(4)] obtain ds
    where ds: "first_bracketed dataFieldKey = Some ds"
    by auto
  define idx where "idx = show_nat (parseInt ds)"
  define result where
    "result = config\<lparr>key := dataFieldKey, group_fc := dynamic_group (group_fc config) idx\<rparr>"
  have bi: "bracket_index dataFieldKey = parseInt ds"
    using ds by (simp add: bracket_index_def)
  have 1:
    "getFieldConfigForDataField FIELD_CONFIGURATIONS dataFieldKey = Returns (Definition result)"
    by (simp only: resolve_first_match[OF assms] bi result_def idx_def)
  have 2: "result = config\<lparr>key := dataFieldKey, group_fc := group_fc result\<rparr>"
    "key result = dataFieldKey"
    by (simp_all add: result_def)
  have 3: "group_fc config = None \<longrightarrow> group_fc result = None"
    by (simp add: result_def dynamic_group_None)
  have 4: "\<forall>g. group_fc config = Some g \<and> \<not> includes_str g ''_template''
      \<longrightarrow> group_fc result = Some g"
    by (simp add: result_def dynamic_group_absent)
  have 5: "\<forall>a b. group_fc config = Some (a @ ''_template'' @ b)
            \<and> \<not> includes_str (a @ ''_templat'') ''_template''
          \<longrightarrow> group_fc result = Some (a @ ''_'' @ show_nat (parseInt ds) @ b)"
    using dynamic_group_first by (simp add: result_def idx_def)
  show ?thesis
    by (intro exI[of _ result] exI[of _ ds] conjI) (fact 1 2 3 4 5 ds)+
qed

text \<open>
  The theorem at the second entry of the example registry and the key of the third
  household member: the group \<^verbatim>\<open>household_member_template\<close> becomes
  \<^verbatim>\<open>household_member_2\<close>.
\<close>

theorem template_match_rewrites_first_occurrence_witness:
  "\<exists>result.
      getFieldConfigForDataField example_registry ''client.household_members[2].first_name''
        = Returns (Definition result)
    \<and> key result = ''client.household_members[2].first_name''
    \<and> group_fc result = Some ''household_member_2''"
proof -
  have h1: "map_of example_registry ''client.household_members[2].first_name'' = None"
    by (simp add: example_registry_def)
  have h2: "example_registry =
      [(''client.first_name'', client_first_name)]
      @ (''client.household_members[*].first_name'', household_member_first_name)
      # [(''auto.vehicles[*].vin'', vehicle_vin)]"
    by (simp add: example_registry_def)
  have h3: "\<forall>(tk, c) \<in> set [(''client.first_name'', client_first_name)].
      passed_over tk ''client.household_members[2].first_name''"
    by (simp add: passed_over_def)
  have h4: "matched ''client.household_members[*].first_name''
      ''client.household_members[2].first_name''"
    by (simp add: resolver_eval)
  have ds: "first_bracketed ''client.household_members[2].first_name'' = Some ''2''"
    by (simp add: resolver_eval)
  have h5: "bracket_index ''client.household_members[2].first_name'' \<le> max_safe_integer"
    by (simp add: resolver_eval)
  have g: "group_fc household_member_first_name = Some (''household_member'' @ ''_template'' @ [])"
    by (simp add: household_member_first_name_def)
  have n: "\<not> includes_str (''household_member'' @ ''_templat'') ''_template''"
    by simp
  have s: "show_nat (parseInt ''2'') = ''2''"
    by (simp add: resolver_eval)
  from template_match_rewrites_first_occurrence[OF h1 h2 h3 h4 h5] ds g n s
  show ?thesis
    by fastforce
qed

text \<open>
  Claim C1 as stated fails: the group id \<^verbatim>\<open>g_template_details\<close> does not end with
  \<^verbatim>\<open>_template\<close>, and the resolver rewrites it to \<^verbatim>\<open>g_0_details\<close>.
\<close>

theorem inner_template_group_is_rewritten:
  "\<not> suffix ''_template'' ''g_template_details''
   \<and> group_fc inner_template_config = Some ''g_template_details''
   \<and> getFieldConfigForDataField [(''a.b[*].c'', inner_template_config)] ''a.b[0].c''
       = Returns (Definition
           (inner_template_config\<lparr>key := ''a.b[0].c'', group_fc := Some ''g_0_details''\<rparr>))"
  by (simp add: suffix_to_prefix inner_template_config_def resolver_eval)

text \<open>
  Claim C2. A key that is present in the registry resolves to the definition stored
  under it, as it is: no template matching, no change of key or group.
\<close>

theorem exact_match_returns_stored_definition:
  assumes "distinct (map fst FIELD_CONFIGURATIONS)"
    and "(dataFieldKey, config) \<in> set FIELD_CONFIGURATIONS"
  shows "getFieldConfigForDataField FIELD_CONFIGURATIONS dataFieldKey
    = Returns (Definition config)"
  using assms by (simp add: getFieldConfigForDataField_def read_property_own)

text \<open>
  A template key is itself a key of the registry: looked up verbatim, it yields the
  template untouched, with the group \<^verbatim>\<open>household_member_template\<close>.
\<close>

theorem exact_match_returns_stored_definition_witness:
  "getFieldConfigForDataField example_registry ''client.household_members[*].first_name''
     = Returns (Definition household_member_first_name)
   \<and> group_fc household_member_first_name = Some ''household_member_template''"
proof -
  have d: "distinct (map fst example_registry)"
    by (simp add: example_registry_def)
  have m: "(''client.household_members[*].first_name'', household_member_first_name)
      \<in> set example_registry"
    by (simp add: example_registry_def)
  from exact_match_returns_stored_definition[OF d m] show ?thesis
    by (simp add: household_member_first_name_def)
qed

section \<open>Claims about the Dynamic Group Materializer\<close>

text \<open>
  Claim C6, as the code has it. Take a template group with the pattern \<^verbatim>\<open>auto.vehicles[*]\<close>,
  anywhere in the list of template groups. When the data context is a document whose
  \<^verbatim>\<open>auto.vehicles\<close> is an array, the template adds one group per element, in index
  order, between the groups of the templates before it and those of the templates after
  it; the group at index \<open>i\<close> has the id \<^verbatim>\<open>vehicle_<i>\<close>, the parent of the template
  and, as its order, the sum of doubles \<^verbatim>\<open>template.order + i\<close>. When \<^verbatim>\<open>auto\<close> is
  absent or \<^verbatim>\<open>null\<close>, or \<^verbatim>\<open>auto.vehicles\<close> is absent, falsy or an empty array, the
  template adds no group. When the data context is \<^verbatim>\<open>undefined\<close> or \<^verbatim>\<open>null\<close>, or
  \<^verbatim>\<open>auto.vehicles\<close> is truthy and not an array, the call raises TypeError once the
  templates before it have been handled.
\<close>

theorem vehicle_groups_per_element:
  assumes "isTemplate template = Some True"
    and "templatePattern template = Some ''auto.vehicles[*]''"
  shows "(data = Json (JObj doc) \<and> map_of doc ''auto'' = Some (JObj props)
            \<and> map_of props ''vehicles'' = Some (JArr vehicles)
          \<longrightarrow> (\<exists>groups. length groups = length vehicles
                \<and> (\<forall>i < length vehicles.
                      id_fg (groups ! i) = ''vehicle_'' @ show_nat i
                    \<and> order (groups ! i) = number_plus (order template) (Num (of_nat i))
                    \<and> parentGroup (groups ! i) = parentGroup template)
                \<and> createDynamicGroups data (earlier @ template # later)
                    = bind_outcome (createDynamicGroups data earlier) (\<lambda>before.
                      bind_outcome (createDynamicGroups data later) (\<lambda>after.
                        Returns (before @ groups @ after)))))
       \<and> (data = Json (JObj doc)
            \<and> (map_of doc ''auto'' = None \<or> map_of doc ''auto'' = Some JNull
                \<or> map_of doc ''auto'' = Some (JObj props)
                   \<and> (map_of props ''vehicles'' = None
                       \<or> (\<exists>v. map_of props ''vehicles'' = Some v \<and> \<not> truthy (Json v))
                       \<or> map_of props ''vehicles'' = Some (JArr [])))
          \<longrightarrow> createDynamicGroups data (earlier @ template # later)
                = createDynamicGroups data (earlier @ later))
       \<and> (data = Undefined \<or> data = Json JNull
            \<or> data = Json (JObj doc) \<and> map_of doc ''auto'' = Some (JObj props)
               \<and> map_of props ''vehicles'' = Some v \<and> truthy (Json v) \<and> (\<forall>xs. v \<noteq> JArr xs)
          \<longrightarrow> createDynamicGroups data (earlier @ template # later)
                = bind_outcome (createDynamicGroups data earlier) (\<lambda>before. Throws TypeError))"
proof -
  have pn: "''auto'' \<notin> set Object_prototype_names" "''vehicles'' \<notin> set Object_prototype_names"
    by (simp_all add: Object_prototype_names_def)
  note tg = template_groups_vehicles[OF assms, of data]
  have 1: "\<exists>groups. length groups = length vehicles
                \<and> (\<forall>i < length vehicles.
                      id_fg (groups ! i) = ''vehicle_'' @ show_nat i
                    \<and> order (groups ! i) = number_plus (order template) (Num (of_nat i))
                    \<and> parentGroup (groups ! i) = parentGroup template)
                \<and> createDynamicGroups data (earlier @ template # later)
                    = bind_outcome (createDynamicGroups data earlier) (\<lambda>before.
                      bind_outcome (createDynamicGroups data later) (\<lambda>after.
                        Returns (before @ groups @ after)))"
    if "data = Json (JObj doc)" "map_of doc ''auto'' = Some (JObj props)"
      "map_of props ''vehicles'' = Some (JArr vehicles)"
  proof -
    have "template_groups data template
        = Returns (map (vehicle_group template) [0..<length vehicles])"
      by (subst tg) (simp add: that(1) collection_array[OF that(2,3)] forEach_push_def)
    then have "createDynamicGroups data (earlier @ template # later)
        = bind_outcome (createDynamicGroups data earlier) (\<lambda>before.
          bind_outcome (createDynamicGroups data later) (\<lambda>after.
            Returns (before @ map (vehicle_group template) [0..<length vehicles] @ after)))"
      by (simp add: createDynamicGroups_middle)
    moreover have "length (map (vehicle_group template) [0..<length vehicles]) = length vehicles"
      by simp
    moreover have "\<forall>i < length vehicles.
          id_fg (map (vehicle_group template) [0..<length vehicles] ! i) = ''vehicle_'' @ show_nat i
        \<and> order (map (vehicle_group template) [0..<length vehicles] ! i)
            = number_plus (order template) (Num (of_nat i))
        \<and> parentGroup (map (vehicle_group template) [0..<length vehicles] ! i)
            = parentGroup template"
      by (simp add: vehicle_group_def)
    ultimately show ?thesis
      by blast
  qed
  have 2: "createDynamicGroups data (earlier @ template # later)
                = createDynamicGroups data (earlier @ later)"
    if "data = Json (JObj doc)"
      "map_of doc ''auto'' = None \<or> map_of doc ''auto'' = Some JNull
                \<or> map_of doc ''auto'' = Some (JObj props)
                   \<and> (map_of props ''vehicles'' = None
                       \<or> (\<exists>v. map_of props ''vehicles'' = Some v \<and> \<not> truthy (Json v))
                       \<or> map_of props ''vehicles'' = Some (JArr []))"
  proof -
    from that(2) have "collection data ''auto'' ''vehicles'' = Returns (Json (JArr []))"
      using pn that(1) collection_no_section[of doc "''auto''" "''vehicles''"]
        collection_no_collection[of doc "''auto''" props "''vehicles''"]
        collection_array[of doc "''auto''" props "''vehicles''" "[]"]
      by blast
    then have "template_groups data template = Returns []"
      by (subst tg) (simp add: forEach_push_def)
    then show ?thesis
      by (rule createDynamicGroups_middle_none)
  qed
  have 3: "createDynamicGroups data (earlier @ template # later)
                = bind_outcome (createDynamicGroups data earlier) (\<lambda>before. Throws TypeError)"
    if "data = Undefined \<or> data = Json JNull
            \<or> data = Json (JObj doc) \<and> map_of doc ''auto'' = Some (JObj props)
               \<and> map_of props ''vehicles'' = Some v \<and> truthy (Json v) \<and> (\<forall>xs. v \<noteq> JArr xs)"
  proof -
    from that have "template_groups data template = Throws TypeError"
      using collection_no_document[of "''auto''" "''vehicles''"]
        collection_truthy[of doc "''auto''" props "''vehicles''" v]
        forEach_push_no_array[of v "vehicle_group template"]
      by (subst tg) auto
    then show ?thesis
      by (simp add: createDynamicGroups_middle)
  qed
  from 1 2 3 show ?thesis by blast
qed

text \<open>
  The theorem at the three template groups of \<^verbatim>\<open>FIELD_GROUPS\<close>, in their order, the
  vehicle template (order 3) being the last: on a data context with two household
  members and two vehicles the groups \<^verbatim>\<open>vehicle_0\<close> and \<^verbatim>\<open>vehicle_1\<close>, of orders 3 and
  4, follow the two household member groups; on an empty document there is no group;
  and on \<^verbatim>\<open>undefined\<close> the call raises TypeError.
\<close>

theorem vehicle_groups_per_element_witness:
  "(\<exists>groups. length groups = 2
      \<and> id_fg (groups ! 0) = ''vehicle_0'' \<and> order (groups ! 0) = Num 3
      \<and> id_fg (groups ! 1) = ''vehicle_1'' \<and> order (groups ! 1) = Num 4
      \<and> createDynamicGroups household_data
           [household_member_template, additional_interests_template, vehicle_template]
         = Returns (map (household_member_group household_member_template) [0, 1] @ groups))
   \<and> createDynamicGroups (Json (JObj []))
        [household_member_template, additional_interests_template, vehicle_template]
      = Returns []
   \<and> createDynamicGroups Undefined [additional_interests_template, vehicle_template]
      = Throws TypeError"
proof -
  have t: "isTemplate vehicle_template = Some True"
    "templatePattern vehicle_template = Some ''auto.vehicles[*]''"
    by (simp_all add: vehicle_template_def)
  have s: "show_nat 0 = ''0''" "show_nat 1 = ''1''"
    by (simp_all add: show_nat.simps digit_char_def)
  have o: "number_plus (order vehicle_template) (Num 0) = Num 3"
    "number_plus (order vehicle_template) (Num 1) = Num 4"
    by (simp_all add: vehicle_template_def round_double_examples)
  have e: "createDynamicGroups household_data
        [household_member_template, additional_interests_template]
      = Returns (map (household_member_group household_member_template) [0, 1])"
    "createDynamicGroups (Json (JObj [])) [household_member_template, additional_interests_template]
      = Returns []"
    "createDynamicGroups Undefined [additional_interests_template] = Returns []"
    by (simp_all add: household_data_def household_member_template_def
        additional_interests_template_def template_groups_def collection_def
        optional_member_def forEach_push_def read_property_def lookup_property_def
        Object_prototype_names_def)
  define vs where "vs = [JObj [(''vin'', JStr ''1HGCM82633A004352'')],
                          JObj [(''vin'', JStr ''2T1BURHE5JC123456'')]]"
  define ps where "ps = [(''vehicles'', JArr vs)]"
  define dc where "dc = [(''client'', JObj [(''household_members'',
                            JArr [JObj [(''first_name'', JStr ''Ann'')],
                                  JObj [(''first_name'', JStr ''Ben'')]])]),
                         (''auto'', JObj ps)]"
  have d: "household_data = Json (JObj dc) \<and> map_of dc ''auto'' = Some (JObj ps)
      \<and> map_of ps ''vehicles'' = Some (JArr vs)"
    by (simp add: household_data_def dc_def ps_def vs_def)
  have l: "length vs = 2"
    by (simp add: vs_def)
  note th = vehicle_groups_per_element[OF t]
  from th[where data = household_data and doc = dc and props = ps and vehicles = vs
        and earlier = "[household_member_template, additional_interests_template]"
        and later = "[]", THEN conjunct1, THEN mp, OF d]
  obtain groups where g: "length groups = length vs"
    "\<forall>i < length vs.
        id_fg (groups ! i) = ''vehicle_'' @ show_nat i
      \<and> order (groups ! i) = number_plus (order vehicle_template) (Num (of_nat i))
      \<and> parentGroup (groups ! i) = parentGroup vehicle_template"
    "createDynamicGroups household_data
       ([household_member_template, additional_interests_template] @ vehicle_template # [])
     = bind_outcome (createDynamicGroups household_data
           [household_member_template, additional_interests_template]) (\<lambda>before.
       bind_outcome (createDynamicGroups household_data []) (\<lambda>after.
         Returns (before @ groups @ after)))"
    by blast
  from g(3) have r: "createDynamicGroups household_data
       [household_member_template, additional_interests_template, vehicle_template]
     = Returns (map (household_member_group household_member_template) [0, 1] @ groups)"
    by (simp only: append.simps e(1) createDynamicGroups.simps(1) bind_outcome.simps append_Nil2)
  from g(2) l have "id_fg (groups ! 0) = ''vehicle_'' @ show_nat 0
      \<and> order (groups ! 0) = number_plus (order vehicle_template) (Num (of_nat 0))"
    "id_fg (groups ! 1) = ''vehicle_'' @ show_nat 1
      \<and> order (groups ! 1) = number_plus (order vehicle_template) (Num (of_nat 1))"
    by simp_all
  with s o have i: "id_fg (groups ! 0) = ''vehicle_0''" "order (groups ! 0) = Num 3"
    "id_fg (groups ! 1) = ''vehicle_1''" "order (groups ! 1) = Num 4"
    by simp_all
  have n: "Json (JObj []) = Json (JObj [])
      \<and> (map_of [] ''auto'' = None \<or> map_of [] ''auto'' = Some JNull
          \<or> map_of [] ''auto'' = Some (JObj ps)
             \<and> (map_of ps ''vehicles'' = None
                 \<or> (\<exists>v. map_of ps ''vehicles'' = Some v \<and> \<not> truthy (Json v))
                 \<or> map_of ps ''vehicles'' = Some (JArr [])))"
    by simp
  from th[where data = "Json (JObj [])" and doc = "[]" and props = ps
        and earlier = "[household_member_template, additional_interests_template]"
        and later = "[]", THEN conjunct2, THEN conjunct1, THEN mp, OF n]
  have b: "createDynamicGroups (Json (JObj []))
        [household_member_template, additional_interests_template, vehicle_template]
      = Returns []"
    by (simp only: append.simps e(2) append_Nil2)
  have u: "Undefined = Undefined \<or> Undefined = Json JNull
      \<or> Undefined = Json (JObj dc) \<and> map_of dc ''auto'' = Some (JObj ps)
         \<and> map_of ps ''vehicles'' = Some (JArr vs) \<and> truthy (Json (JArr vs))
         \<and> (\<forall>xs. JArr vs \<noteq> JArr xs)"
    by simp
  from th[where data = Undefined and doc = dc and props = ps and v = "JArr vs"
        and earlier = "[additional_interests_template]" and later = "[]",
        THEN conjunct2, THEN conjunct2, THEN mp, OF u]
  have c: "createDynamicGroups Undefined [additional_interests_template, vehicle_template]
      = Throws TypeError"
    by (simp only: append.simps e(3) bind_outcome.simps)
  from l g(1) i r b c show ?thesis
    by auto
qed

text \<open>
  Claim C6 as stated fails: on a data context whose \<^verbatim>\<open>auto.vehicles\<close> is the number 5,
  and on the data context \<^verbatim>\<open>undefined\<close>, there is no vehicles array and the materializer
  raises TypeError where the claim has it yield zero groups.
\<close>

theorem materializer_raises_without_array:
  "createDynamicGroups (Json (JObj [(''auto'', JObj [(''vehicles'', JNum 5)])])) [vehicle_template]
     = Throws TypeError
   \<and> createDynamicGroups Undefined [vehicle_template] = Throws TypeError"
  by (simp add: vehicle_template_def groups_eval)

text \<open>
  The order of a vehicle group is a sum of doubles: under a template of order \<open>2^53\<close>
  the second vehicle gets the order \<open>2^53\<close> of the first.
\<close>

lemma vehicle_orders_are_doubles:
  "map (\<lambda>index. order (vehicle_group (vehicle_template\<lparr>order := Num 9007199254740992\<rparr>) index))
       [0, 1]
     = [Num 9007199254740992, Num 9007199254740992]"
  by (simp add: vehicle_group_def round_double_large)

text \<open>
  Claim C5 does not hold of the code: \<^verbatim>\<open>createDynamicGroups\<close> has a branch for
  \<^verbatim>\<open>client.household_members[*]\<close> and one for \<^verbatim>\<open>auto.vehicles[*]\<close>, and none for
  \<^verbatim>\<open>home.additional_interests[*]\<close>, the pattern of the third template group of
  \<^verbatim>\<open>FIELD_GROUPS\<close>. On a data context with one additional interest that template
  adds no group, alone or among the three templates.
\<close>

theorem additional_interests_yield_no_group:
  "collection example_data ''home'' ''additional_interests''
     = Returns (Json (JArr [JObj [(''type'', JStr ''Mortgagee'')]]))
   \<and> createDynamicGroups example_data [additional_interests_template] = Returns []
   \<and> createDynamicGroups example_data
        [household_member_template, additional_interests_template, vehicle_template]
      = createDynamicGroups example_data [household_member_template, vehicle_template]"
  by (simp add: additional_interests_template_def household_member_template_def
      vehicle_template_def example_data_def template_groups_def collection_def
      optional_member_def forEach_push_def read_property_def lookup_property_def
      Object_prototype_names_def)

section \<open>Claims about the Group Hierarchy Builder\<close>

text \<open>
  The ordering of the result on every working set without a NaN order and without a
  parentless group of id \<^verbatim>\<open>__proto__\<close>. On such a set the builder raises TypeError when
  a group names an inherited member as its parent, and otherwise it returns:
  the top-level list is sorted ascending by order; every children bucket of the
  hierarchy map is sorted ascending by order; the top-level groups of any one rank are
  the groups without parent of that rank, in the sequence of the working set, and the
  groups of any one rank in the bucket of \<open>p\<close> are the groups of that rank that name \<open>p\<close>
  as parent, in the sequence of the working set (the sort is stable); and every group
  without parent has a bucket, empty or not.
\<close>

lemma hierarchy_sorted_and_stable:
  assumes "\<forall>g \<in> set (allGroups flatGroups dynamicGroups). order g \<noteq> NaN"
    and "\<forall>g \<in> set (allGroups flatGroups dynamicGroups).
           \<not> has_parent g \<longrightarrow> id_fg g \<noteq> ''__proto__''"
  shows "if \<exists>g \<in> set (allGroups flatGroups dynamicGroups).
            names_inherited_member (allGroups flatGroups dynamicGroups) g
    then buildGroupHierarchy flatGroups dynamicGroups = Throws TypeError
    else \<exists>r. buildGroupHierarchy flatGroups dynamicGroups = Returns r
      \<and> sorted (map (\<lambda>g. rank (order g)) (topLevel r))
      \<and> (\<forall>p bucket. hierarchy r p = Some bucket \<longrightarrow> sorted (map (\<lambda>g. rank (order g)) bucket))
      \<and> (\<forall>v. filter (\<lambda>g. rank (order g) = v) (topLevel r)
             = filter (\<lambda>g. rank (order g) = v)
                 (filter (\<lambda>g. \<not> has_parent g) (allGroups flatGroups dynamicGroups)))
      \<and> (\<forall>p bucket v. hierarchy r p = Some bucket \<longrightarrow>
             filter (\<lambda>g. rank (order g) = v) bucket
             = filter (\<lambda>g. rank (order g) = v)
                 (children_of p (allGroups flatGroups dynamicGroups)))
      \<and> (\<forall>g \<in> set (allGroups flatGroups dynamicGroups).
             \<not> has_parent g \<longrightarrow> hierarchy r (id_fg g) \<noteq> None)
      \<and> hierarchy_prototype r = None"
proof (cases "\<exists>g \<in> set (allGroups flatGroups dynamicGroups).
            names_inherited_member (allGroups flatGroups dynamicGroups) g")
  case True
  then show ?thesis
    by (simp add: buildGroupHierarchy_characterised[OF assms])
next
  case False
  define gs where "gs = allGroups flatGroups dynamicGroups"
  define r where "r =
     \<lparr>topLevel = sort_key (\<lambda>g. rank (order g)) (filter (\<lambda>g. \<not> has_parent g) gs),
      hierarchy = (\<lambda>p. if p \<in> id_fg ` {g \<in> set gs. \<not> has_parent g}
                       then Some (sort_key (\<lambda>g. rank (order g)) (children_of p gs))
                       else None),
      hierarchy_prototype = None\<rparr>"
  have b: "buildGroupHierarchy flatGroups dynamicGroups = Returns r"
    unfolding r_def gs_def using False
    by (simp add: buildGroupHierarchy_characterised[OF assms])
  have 1: "sorted (map (\<lambda>g. rank (order g)) (topLevel r))"
    by (simp add: r_def)
  have 2: "sorted (map (\<lambda>g. rank (order g)) bucket)" if "hierarchy r p = Some bucket" for p bucket
    using that by (auto simp: r_def split: if_splits)
  have 3: "filter (\<lambda>g. rank (order g) = v) (topLevel r)
           = filter (\<lambda>g. rank (order g) = v) (filter (\<lambda>g. \<not> has_parent g) gs)" for v
    by (simp add: r_def sort_key_stable)
  have 4: "filter (\<lambda>g. rank (order g) = v) bucket
           = filter (\<lambda>g. rank (order g) = v) (children_of p gs)"
    if "hierarchy r p = Some bucket" for p bucket v
  proof -
    from that have "bucket = sort_key (\<lambda>g. rank (order g)) (children_of p gs)"
      by (auto simp: r_def split: if_splits)
    then show ?thesis
      by (simp only: sort_key_stable)
  qed
  have 5: "hierarchy r (id_fg g) \<noteq> None" if "g \<in> set gs" "\<not> has_parent g" for g
    using that by (auto simp: r_def)
  have 6: "hierarchy_prototype r = None"
    by (simp add: r_def)
  from False b 1 2 3 4 5 6 show ?thesis
    unfolding gs_def by (simp only: if_False) blast
qed

lemmas hierarchy_eval =
  buildGroupHierarchy_def allGroups_def init_step_def attach_step_def has_parent_def
  sort_by_order_def Object_prototype_names_def plain_group_def

text \<open>
  The hierarchy ordering example of the specification: the top-level orders 3, 1, 2 and
  a second 1 come out as 1, 1, 2, 3 with the two groups of order 1 in their former
  sequence, the children of orders 20, 10 come out as 10, 20, and the groups without
  children have an empty bucket.
\<close>

lemma hierarchy_ordering_example:
  "\<exists>r. buildGroupHierarchy example_flat_groups example_dynamic_groups = Returns r
     \<and> map id_fg (topLevel r) = [''one'', ''one_again'', ''two'', ''three'']
     \<and> map_option (map id_fg) (hierarchy r ''one'') = Some [''early'', ''late'']
     \<and> hierarchy r ''two'' = Some []
     \<and> hierarchy r ''one_again'' = Some []
     \<and> hierarchy_prototype r = None"
  by (simp add: example_flat_groups_def example_dynamic_groups_def hierarchy_eval)

text \<open>
  Claim C7 does not hold of the code: the hierarchy object is a plain object, and for a
  group without parent whose id is \<^verbatim>\<open>__proto__\<close> the assignment
  \<^verbatim>\<open>hierarchy[group.id] = []\<close> replaces the prototype of that object instead of creating
  a bucket. The children of that group are pushed onto the array that is now the
  prototype, \<^verbatim>\<open>Object.keys(hierarchy)\<close> does not list it, and it is never sorted. Here
  the group \<^verbatim>\<open>one\<close> has its children of orders 20, 10 sorted to 10, 20, while the same
  children under the group \<^verbatim>\<open>__proto__\<close> stay in the sequence 20, 10, and that group has
  no bucket in the map.
\<close>

theorem proto_children_left_unsorted:
  "buildGroupHierarchy []
     [plain_group ''one'' 1 None,
      plain_group ''__proto__'' 2 None,
      plain_group ''late'' 20 (Some ''one''),
      plain_group ''early'' 10 (Some ''one''),
      plain_group ''late_child'' 20 (Some ''__proto__''),
      plain_group ''early_child'' 10 (Some ''__proto__'')]
   = Returns
       \<lparr>topLevel = [plain_group ''one'' 1 None, plain_group ''__proto__'' 2 None],
        hierarchy = [''one'' \<mapsto> [plain_group ''early'' 10 (Some ''one''),
                                  plain_group ''late'' 20 (Some ''one'')]],
        hierarchy_prototype = Some [plain_group ''late_child'' 20 (Some ''__proto__''),
                                    plain_group ''early_child'' 10 (Some ''__proto__'')]\<rparr>"
  by (simp add: hierarchy_eval)

text \<open>
  Claim C8 does not hold of the code: a group whose parent id is the name of a member of
  \<^verbatim>\<open>Object.prototype\<close>, here \<^verbatim>\<open>constructor\<close>, and not the id of a top-level group, is
  not dropped. \<^verbatim>\<open>hierarchy[group.parentGroup]\<close> reads the inherited member, which is
  truthy and has no \<^verbatim>\<open>push\<close>, and the call raises TypeError. (For every other parent
  id that names no top-level group the group is dropped: \<open>orphan_not_in_hierarchy\<close>,
  \<open>buildGroupHierarchy_total\<close>.)
\<close>

theorem orphan_of_constructor_raises:
  "buildGroupHierarchy [(''one'', plain_group ''one'' 1 None)]
     [plain_group ''orphan'' 2 (Some ''constructor'')] = Throws TypeError
   \<and> ''constructor'' \<noteq> id_fg (plain_group ''one'' 1 None)"
  by (simp add: hierarchy_eval)

section \<open>Claims about the State Option Resolver\<close>

lemmas options_eval =
  getNestedValue_def nested_step_def read_property_def lookup_property_def
  Object_prototype_names_def home_in_state_def

text \<open>
  Claim C3. Take a field definition with no static options, with state-specific options
  whose state codes are not empty, and with a state path that is not empty. When the
  value at the path is a string whose upper-cased form is a key of the state-specific
  options, the resolver returns the list stored under that key; when the walk along
  the path finds nothing (\<^verbatim>\<open>undefined\<close> or \<^verbatim>\<open>null\<close>), or finds a string whose upper-cased
  form is not a key, it returns the default list.
\<close>

theorem state_options_by_upper_cased_code:
  assumes "options fieldConfig = None"
    and "stateSpecificOptions fieldConfig = Some sso"
    and "dependsOnStateFrom fieldConfig = Some path" and "path \<noteq> []"
    and "map_of (by_state sso) [] = None"
  shows "(\<forall>s opts. getNestedValue auditData path = Returns (Json (JStr s))
            \<and> map_of (by_state sso) (toUpperCase s) = Some opts
          \<longrightarrow> getFieldOptions fieldConfig auditData = Returns opts)
       \<and> (getNestedValue auditData path = Returns Undefined
            \<or> getNestedValue auditData path = Returns (Json JNull)
          \<longrightarrow> getFieldOptions fieldConfig auditData = Returns (default_options sso))
       \<and> (\<forall>s. getNestedValue auditData path = Returns (Json (JStr s))
            \<and> map_of (by_state sso) (toUpperCase s) = None
          \<longrightarrow> getFieldOptions fieldConfig auditData = Returns (default_options sso))"
  using assms(5) getFieldOptions_string[OF assms(1-4)] getFieldOptions_absent[OF assms(1-4)]
  by (auto split: if_splits)

text \<open>
  The theorem at the roof type definition: \<^verbatim>\<open>fl\<close> yields the FL list, \<^verbatim>\<open>TX\<close> and a
  home without address yield the default list.
\<close>

theorem state_options_by_upper_cased_code_witness:
  "getFieldOptions roof_type (home_in_state (JStr ''fl'')) = Returns roof_type_FL
   \<and> getFieldOptions roof_type (home_in_state (JStr ''TX'')) = Returns roof_type_default
   \<and> getFieldOptions roof_type (Json (JObj [(''home'', JObj [])])) = Returns roof_type_default"
proof -
  have h: "options roof_type = None" "stateSpecificOptions roof_type = Some roof_type_options"
    "dependsOnStateFrom roof_type = Some ''home.property_address.state''"
    "''home.property_address.state'' \<noteq> []"
    "map_of (by_state roof_type_options) [] = None"
    by (simp_all add: roof_type_def roof_type_options_def)
  have fl: "getNestedValue (home_in_state (JStr ''fl'')) ''home.property_address.state''
      = Returns (Json (JStr ''fl''))"
    and tx: "getNestedValue (home_in_state (JStr ''TX'')) ''home.property_address.state''
      = Returns (Json (JStr ''TX''))"
    and no: "getNestedValue (Json (JObj [(''home'', JObj [])])) ''home.property_address.state''
      = Returns Undefined"
    by (simp_all add: options_eval)
  have k: "map_of (by_state roof_type_options) (toUpperCase ''fl'') = Some roof_type_FL"
    "map_of (by_state roof_type_options) (toUpperCase ''TX'') = None"
    "default_options roof_type_options = roof_type_default"
    by (simp_all add: roof_type_options_def toUpperCase_def upper_char_def)
  from state_options_by_upper_cased_code[OF h, of "home_in_state (JStr ''fl'')"]
       state_options_by_upper_cased_code[OF h, of "home_in_state (JStr ''TX'')"]
       state_options_by_upper_cased_code[OF h, of "Json (JObj [(''home'', JObj [])])"]
       fl tx no k
  show ?thesis
    by metis
qed

text \<open>
  Claim C4, as the code has it. The resolver raises exactly when the definition has no
  static options, has state-specific options and a state path that is not empty, and
  the value at the path is neither \<^verbatim>\<open>undefined\<close>, \<^verbatim>\<open>null\<close> nor a string: the call of
  \<^verbatim>\<open>toUpperCase\<close> on such a value is a TypeError. With an absent value or a string
  it returns the default list or a state-specific list, and without the state-specific
  branch it returns the static list or the empty list.
\<close>

theorem getFieldOptions_raises_only_on_non_string:
  "(\<forall>e. getFieldOptions fieldConfig auditData = Throws e \<longrightarrow>
       e = TypeError \<and> options fieldConfig = None \<and>
       (\<exists>sso path v. stateSpecificOptions fieldConfig = Some sso
          \<and> dependsOnStateFrom fieldConfig = Some path \<and> path \<noteq> []
          \<and> getNestedValue auditData path = Returns v
          \<and> v \<noteq> Undefined \<and> v \<noteq> Json JNull \<and> (\<forall>s. v \<noteq> Json (JStr s))))
   \<and> (\<forall>sso path v. options fieldConfig = None
          \<and> stateSpecificOptions fieldConfig = Some sso
          \<and> dependsOnStateFrom fieldConfig = Some path \<and> path \<noteq> []
          \<and> getNestedValue auditData path = Returns v \<longrightarrow>
        (if v = Undefined \<or> v = Json JNull \<or> (\<exists>s. v = Json (JStr s))
         then \<exists>opts. getFieldOptions fieldConfig auditData = Returns opts
                \<and> (opts = default_options sso \<or> opts \<in> snd ` set (by_state sso))
         else getFieldOptions fieldConfig auditData = Throws TypeError))
   \<and> (options fieldConfig \<noteq> None \<or> stateSpecificOptions fieldConfig = None
        \<or> dependsOnStateFrom fieldConfig = None \<or> dependsOnStateFrom fieldConfig = Some []
      \<longrightarrow> getFieldOptions fieldConfig auditData
            = Returns (case options fieldConfig of Some opts \<Rightarrow> opts | None \<Rightarrow> []))"
proof (intro conjI allI impI)
  fix e
  assume t: "getFieldOptions fieldConfig auditData = Throws e"
  show "e = TypeError" by (cases e) simp
  have "\<not> (options fieldConfig \<noteq> None \<or> stateSpecificOptions fieldConfig = None
      \<or> dependsOnStateFrom fieldConfig = None \<or> dependsOnStateFrom fieldConfig = Some [])"
  proof
    assume "options fieldConfig \<noteq> None \<or> stateSpecificOptions fieldConfig = None
      \<or> dependsOnStateFrom fieldConfig = None \<or> dependsOnStateFrom fieldConfig = Some []"
    from getFieldOptions_no_state[OF this, of auditData] t show False by simp
  qed
  then have c: "options fieldConfig = None" "stateSpecificOptions fieldConfig \<noteq> None"
    "dependsOnStateFrom fieldConfig \<noteq> None" "dependsOnStateFrom fieldConfig \<noteq> Some []"
    by simp_all
  then show "options fieldConfig = None" by simp
  from c obtain sso path where sp: "stateSpecificOptions fieldConfig = Some sso"
    "dependsOnStateFrom fieldConfig = Some path" "path \<noteq> []"
    by auto
  from t getNestedValue_not_Throws[of auditData path]
  obtain v where v: "getNestedValue auditData path = Returns v"
    by (cases "getNestedValue auditData path")
       (auto simp: getFieldOptions_state[OF c(1) sp])
  have "v \<noteq> Undefined \<and> v \<noteq> Json JNull \<and> (\<forall>s. v \<noteq> Json (JStr s))"
  proof (rule ccontr)
    assume "\<not> ?thesis"
    then consider "v = Undefined \<or> v = Json JNull" | s where "v = Json (JStr s)"
      by blast
    then show False
    proof cases
      case 1
      with getFieldOptions_absent[OF c(1) sp, of auditData] v t show False by auto
    next
      case 2
      with getFieldOptions_string[OF c(1) sp, of auditData s] v t show False
        by (auto split: if_splits option.splits)
    qed
  qed
  with sp v show "\<exists>sso path v. stateSpecificOptions fieldConfig = Some sso
          \<and> dependsOnStateFrom fieldConfig = Some path \<and> path \<noteq> []
          \<and> getNestedValue auditData path = Returns v
          \<and> v \<noteq> Undefined \<and> v \<noteq> Json JNull \<and> (\<forall>s. v \<noteq> Json (JStr s))"
    by blast
next
  fix sso path v
  assume a: "options fieldConfig = None
          \<and> stateSpecificOptions fieldConfig = Some sso
          \<and> dependsOnStateFrom fieldConfig = Some path \<and> path \<noteq> []
          \<and> getNestedValue auditData path = Returns v"
  then have c: "options fieldConfig = None" "stateSpecificOptions fieldConfig = Some sso"
    "dependsOnStateFrom fieldConfig = Some path" "path \<noteq> []"
    and v: "getNestedValue auditData path = Returns v"
    by simp_all
  show "if v = Undefined \<or> v = Json JNull \<or> (\<exists>s. v = Json (JStr s))
         then \<exists>opts. getFieldOptions fieldConfig auditData = Returns opts
                \<and> (opts = default_options sso \<or> opts \<in> snd ` set (by_state sso))
         else getFieldOptions fieldConfig auditData = Throws TypeError"
  proof (cases "v = Undefined \<or> v = Json JNull \<or> (\<exists>s. v = Json (JStr s))")
    case True
    then consider "v = Undefined \<or> v = Json JNull" | s where "v = Json (JStr s)"
      by blast
    then have "\<exists>opts. getFieldOptions fieldConfig auditData = Returns opts
                \<and> (opts = default_options sso \<or> opts \<in> snd ` set (by_state sso))"
    proof cases
      case 1
      with getFieldOptions_absent[OF c, of auditData] v show ?thesis by auto
    next
      case 2
      with getFieldOptions_string[OF c, of auditData s] v show ?thesis
        by (auto split: option.splits dest!: map_of_SomeD intro: rev_image_eqI)
    qed
    with True show ?thesis by simp
  next
    case False
    with getFieldOptions_other[OF c v] show ?thesis by auto
  qed
next
  assume "options fieldConfig \<noteq> None \<or> stateSpecificOptions fieldConfig = None
        \<or> dependsOnStateFrom fieldConfig = None \<or> dependsOnStateFrom fieldConfig = Some []"
  then show "getFieldOptions fieldConfig auditData
            = Returns (case options fieldConfig of Some opts \<Rightarrow> opts | None \<Rightarrow> [])"
    by (rule getFieldOptions_no_state)
qed

text \<open>
  The theorem at the roof type definition: the boolean \<^verbatim>\<open>true\<close> at the state path
  raises, the string \<^verbatim>\<open>ca\<close> yields a list.
\<close>

theorem getFieldOptions_raises_only_on_non_string_witness:
  "getFieldOptions roof_type (home_in_state (JBool True)) = Throws TypeError
   \<and> (\<exists>opts. getFieldOptions roof_type (home_in_state (JStr ''ca'')) = Returns opts)"
proof -
  have h: "options roof_type = None \<and> stateSpecificOptions roof_type = Some roof_type_options
    \<and> dependsOnStateFrom roof_type = Some ''home.property_address.state''
    \<and> ''home.property_address.state'' \<noteq> []"
    by (simp add: roof_type_def)
  have t: "getNestedValue (home_in_state (JBool True)) ''home.property_address.state''
      = Returns (Json (JBool True))"
    and s: "getNestedValue (home_in_state (JStr ''ca'')) ''home.property_address.state''
      = Returns (Json (JStr ''ca''))"
    by (simp_all add: options_eval)
  from getFieldOptions_raises_only_on_non_string[of roof_type "home_in_state (JBool True)"]
       getFieldOptions_raises_only_on_non_string[of roof_type "home_in_state (JStr ''ca'')"]
       h t s
  show ?thesis
    by (auto split: if_splits)
qed

text \<open>
  Claim C4 as stated fails: with the number 33 at the state path the resolver raises
  TypeError.
\<close>

theorem numeric_state_raises_TypeError:
  "getFieldOptions roof_type (home_in_state (JNum 33)) = Throws TypeError"
  by (simp add: roof_type_def getFieldOptions_def options_eval)

section \<open>Claims about the Template Resolver on the source registry\<close>

text \<open>
  Claim C10. Take any registry with the keys and groups of the source, and any two
  characters \<open>c\<close> and \<open>d\<close> that are not line terminators. The key
  \<^verbatim>\<open>client<c>household_members[0]<d>first_name\<close>, which differs from an instance of
  the template key \<^verbatim>\<open>client.household_members[*].first_name\<close> at the two dots only, is
  no key of the registry, and it resolves to the definition of that template, with the
  key overwritten and the group \<^verbatim>\<open>household_member_0\<close>, rather than to NotFound: the
  dots of a template key are pattern text and match any character.
\<close>

theorem unescaped_dots_match_any_character:
  assumes "has_source_entries FIELD_CONFIGURATIONS"
    and "\<not> is_line_terminator c" and "\<not> is_line_terminator d"
  shows "\<exists>config.
      (''client.household_members[*].first_name'', config) \<in> set FIELD_CONFIGURATIONS
    \<and> map_of FIELD_CONFIGURATIONS (dotless_key c d) = None
    \<and> getFieldConfigForDataField FIELD_CONFIGURATIONS (dotless_key c d)
        = Returns (Definition
            (config\<lparr>key := dotless_key c d, group_fc := Some ''household_member_0''\<rparr>))"
proof -
  from has_source_entries_first_template[OF assms(1)] obtain earlier config later
    where reg: "FIELD_CONFIGURATIONS
        = earlier @ (''client.household_members[*].first_name'', config) # later"
      and e: "map fst earlier = map fst client_entries"
      and g: "group_fc config = Some ''household_member_template''"
    by blast
  have z: "first_bracketed (dotless_key c d) \<noteq> None"
    by (simp add: dotless_key_def bracketed_def is_digit_def)
  have own: "map_of FIELD_CONFIGURATIONS (dotless_key c d) = None"
    by (simp only: has_source_entries_own[OF assms(1)] key_with_index_not_own[OF z])
  have m: "matched ''client.household_members[*].first_name'' (dotless_key c d)"
    using assms(2,3) by (simp add: resolver_eval dotless_key_def)
  have i: "bracket_index (dotless_key c d) = 0"
    by (simp add: resolver_eval dotless_key_def)
  have s: "dynamic_group (Some ''household_member_template'') (show_nat 0) = Some ''household_member_0''"
    by (simp add: resolver_eval)
  have "getFieldConfigForDataField FIELD_CONFIGURATIONS (dotless_key c d)
        = Returns (Definition
            (config\<lparr>key := dotless_key c d, group_fc := Some ''household_member_0''\<rparr>))"
    using resolve_first_match[OF own reg client_keys_passed_over[OF e] m]
    by (simp add: i g s max_safe_integer_def)
  with reg own show ?thesis
    by auto
qed

text \<open>
  The theorem at the registry with the bare entries of the source and the key
  \<^verbatim>\<open>clientXhousehold_members[0]Xfirst_name\<close>.
\<close>

theorem unescaped_dots_match_any_character_witness:
  "has_source_entries bare_registry
   \<and> dotless_key CHR ''X'' CHR ''X'' = ''clientXhousehold_members[0]Xfirst_name''
   \<and> (\<exists>config.
        (''client.household_members[*].first_name'', config) \<in> set bare_registry
      \<and> map_of bare_registry ''clientXhousehold_members[0]Xfirst_name'' = None
      \<and> getFieldConfigForDataField bare_registry ''clientXhousehold_members[0]Xfirst_name''
          = Returns (Definition
              (config\<lparr>key := ''clientXhousehold_members[0]Xfirst_name'',
                      group_fc := Some ''household_member_0''\<rparr>)))"
proof -
  have k: "dotless_key CHR ''X'' CHR ''X'' = ''clientXhousehold_members[0]Xfirst_name''"
    by (simp add: dotless_key_def)
  have t: "\<not> is_line_terminator CHR ''X''"
    by (simp add: is_line_terminator_def)
  from unescaped_dots_match_any_character[OF has_source_entries_bare t t] k
       has_source_entries_bare
  show ?thesis
    by simp
qed

text \<open>
  Claim C9 does not hold of the code: the exact match is the read
  \<^verbatim>\<open>FIELD_CONFIGURATIONS[dataFieldKey]\<close> on a plain object, which also finds what the
  object inherits. In every registry without an own key \<^verbatim>\<open>constructor\<close>, that key is
  no key of the registry and is matched by no template key, and the resolver returns the
  inherited member \<^verbatim>\<open>Object\<close>, which is neither \<^verbatim>\<open>null\<close> nor a definition. The
  registry of the source is such a registry (\<open>source_registry_lacks_constructor\<close>). For
  every key that is not a name of \<^verbatim>\<open>Object.prototype\<close> the claim holds
  (\<open>unmatched_key_not_found\<close>).
\<close>

theorem constructor_key_yields_prototype_member:
  assumes "map_of FIELD_CONFIGURATIONS ''constructor'' = None"
  shows "list_all (\<lambda>(templateKey, config). \<not> matched templateKey ''constructor'')
         FIELD_CONFIGURATIONS
    \<and> getFieldConfigForDataField FIELD_CONFIGURATIONS ''constructor''
        = Returns (PrototypeMember ''constructor'')"
proof -
  have "\<not> matched templateKey ''constructor''" for templateKey
    using matched_has_index[of templateKey "''constructor''"] by auto
  then have nm: "list_all (\<lambda>(templateKey, config). \<not> matched templateKey ''constructor'')
         FIELD_CONFIGURATIONS"
    by (simp add: list_all_iff case_prod_unfold)
  have "''constructor'' \<in> set Object_prototype_names"
    by (simp add: Object_prototype_names_def)
  from prototype_key_not_null[OF assms this] nm show ?thesis
    by simp
qed

text \<open>
  The theorem at the registry of three entries of the source: \<^verbatim>\<open>constructor\<close> is none
  of its keys, and the resolver returns the inherited member.
\<close>

theorem constructor_key_yields_prototype_member_witness:
  "map_of example_registry ''constructor'' = None
   \<and> list_all (\<lambda>(templateKey, config). \<not> matched templateKey ''constructor'')
        example_registry
   \<and> getFieldConfigForDataField example_registry ''constructor''
       = Returns (PrototypeMember ''constructor'')"
proof -
  have own: "map_of example_registry ''constructor'' = None"
    by (simp add: example_registry_def)
  from constructor_key_yields_prototype_member[OF own] own show ?thesis
    by simp
qed

end
